theory Spec2Isabelle
  imports Main "HOL-Library.Sublist"
begin

section \<open>The dual-protocol provisioning sample (src/example.py)\<close>

text \<open>
  The script is one linear procedure, \<open>run_example\<close>, over three helpers that each
  build a request body and call the management SDK. The model keeps that shape:
  every effect on the outside world (console output, prompts, SDK calls, waiting on a
  long-running operation, polling a resource) is appended to a trace, and every
  exception is a value \<open>Inl e\<close> of the result.

  Python \<open>str\<close> values are modelled by their UTF-8 bytes (\<^typ>\<open>string\<close>), so that
  \<open>s.encode()\<close> and the \<open>decode()\<close> of an ASCII byte string are the identity.
\<close>

subsection \<open>Module constants (lines 19-41)\<close>

definition RESOURCE_GROUP_NAME :: string where
  "RESOURCE_GROUP_NAME = ''<Resource Group Name>''"

definition LOCATION :: string where
  "LOCATION = ''<Location>''"

definition VNET_NAME :: string where
  "VNET_NAME = ''<VNET>''"

definition SUBNET_NAME :: string where
  "SUBNET_NAME = ''<Subnet Name>''"

definition ANF_ACCOUNT_NAME :: string where
  "ANF_ACCOUNT_NAME = ''<Account Name>''"

definition CAPACITY_POOL_NAME :: string where
  "CAPACITY_POOL_NAME = ''<Capacity Pool>''"

definition CAPACITY_POOL_SERVICE_LEVEL :: string where
  "CAPACITY_POOL_SERVICE_LEVEL = ''Standard''"

definition VOLUME_NAME :: string where
  "VOLUME_NAME = ''<Volume Name>''"

definition CAPACITY_POOL_SIZE :: int where
  "CAPACITY_POOL_SIZE = 4398046511104"

definition VOLUME_SIZE :: int where
  "VOLUME_SIZE = 107374182400"

definition DOMAIN_JOIN_USERNAME :: string where
  "DOMAIN_JOIN_USERNAME = ''aduser''"

definition DNS_LIST :: string where
  "DNS_LIST = ''10.25.4.68''"

definition AD_FQDN :: string where
  "AD_FQDN = ''testdomain.local''"

definition SMB_SERVERNAME_PREFIX :: string where
  "SMB_SERVERNAME_PREFIX = ''testsmb''"

definition ROOT_CA_CERT_FULL_FILEPATH :: string where
  "ROOT_CA_CERT_FULL_FILEPATH = ''./ad-server.cer''"

text \<open>
  Line 41. The constant is \<open>False\<close> as shipped and the comment above it asks the user
  to change it to \<open>True\<close> to enable the cleanup; \<open>run_example\<close> below therefore takes
  the flag as an argument, and \<open>main\<close> passes the shipped value.
\<close>

definition CLEANUP_RESOURCES :: bool where
  "CLEANUP_RESOURCES = False"

subsection \<open>Request bodies and returned resources\<close>

text \<open>
  The SDK model classes, with the fields the script sets. \<open>tags\<close> is a Python dict or
  \<open>None\<close>. The data-protection object of a volume is never built by the script (it
  only passes on what its caller gave, by default \<open>None\<close>), so the model keeps one
  value for it and none of its fields.
\<close>

type_synonym tags = "(string \<times> string) list"

datatype volume_properties_data_protection = VolumePropertiesDataProtection

record active_directory =
  username :: string
  password :: string
  domain :: string
  dns :: string
  smb_server_name :: string
  server_root_ca_certificate :: string

record net_app_account =
  acct_location :: string
  acct_tags :: "tags option"
  active_directories :: "active_directory list"

record capacity_pool =
  pool_location :: string
  pool_service_level :: string
  pool_size :: int

record volume =
  usage_threshold :: int
  creation_token :: string
  vol_location :: string
  vol_service_level :: string
  subnet_id :: string
  protocol_types :: "string list"
  data_protection :: "volume_properties_data_protection option"
  security_style :: string

text \<open>
  What the service returns: the attributes of the created resources that the script
  reads (\<open>id\<close> and \<open>name\<close> of the account, \<open>id\<close> of the pool, \<open>id\<close>, \<open>protocol_types\<close>
  and \<open>mount_targets\<close> of the volume).
\<close>

record account_resource =
  account_id :: string
  account_name :: string

record pool_resource =
  pool_id :: string

record mount_target =
  smb_server_fqdn :: string
  ip_address :: string

record volume_resource =
  volume_id :: string
  volume_protocol_types :: "string list"
  mount_targets :: "mount_target list"

subsection \<open>Exceptions, SDK operations and the trace\<close>

text \<open>
  \<open>CloudError m\<close> is msrestazure's \<open>CloudError\<close> with \<open>ex.message = m\<close>, the one class
  the \<open>except\<close> clauses catch. \<open>IndexError\<close> is Python's out-of-range list access.
  \<open>OtherError\<close> stands for any other exception class an external call may raise.
\<close>

datatype py_error = CloudError string | IndexError | OtherError string

text \<open>The six management operations of the script, with their positional arguments.\<close>

datatype api_op =
    AccountsCreateOrUpdate net_app_account string string
  | PoolsCreateOrUpdate capacity_pool string string string
  | VolumesCreateOrUpdate volume string string string string
  | VolumesDelete string string string string
  | PoolsDelete string string string
  | AccountsDelete string string

text \<open>
  \<^item> \<open>LroBegin op\<close>: the SDK method was called and returned a poller (the long-running
    operation has started); \<open>LroRefused op\<close>: the SDK method itself raised.
  \<^item> \<open>LroDone op\<close>: \<open>.result()\<close> or \<open>.wait()\<close> was called on the poller of \<open>op\<close> and has
    come back, with the resource or with the operation's exception.
  \<^item> \<open>ResourceGet rid found\<close>: one poll of the resource \<open>rid\<close> and what it found.
  \<^item> \<open>ConsoleOutputList t xs\<close>: \<open>console_output(t.format(xs))\<close> for a list \<open>xs\<close>; how
    Python renders the list is not modelled.
\<close>

datatype event =
    PrintHeader string
  | ConsoleOutput string
  | ConsoleOutputList string "string list"
  | GetCredentials
  | NewClient string
  | GetPass string
  | GetRootCaCert string
  | LroBegin api_op
  | LroRefused api_op
  | LroDone api_op
  | ResourceGet string bool

type_synonym trace = "event list"

text \<open>
  The outside world, as the answers it gives. The helper modules \<open>sample_utils\<close> and
  \<open>resource_uri_utils\<close> are not among the sources, so what \<open>get_credentials\<close>,
  \<open>get_root_ca_cert\<close>, \<open>get_anf_capacity_pool\<close>, \<open>get_resource_value\<close> and
  \<open>get_anf_volume\<close> return is a parameter here. Of \<open>get_credentials\<close> only the
  subscription id is kept: the credentials object goes to the client constructor and
  nowhere else.

  An SDK method answers \<open>Inl e\<close> when the call itself raises \<open>e\<close>, and \<open>Inr r\<close> when it
  returns a poller whose \<open>.result()\<close> or \<open>.wait()\<close> will deliver \<open>r\<close> (again an
  exception or a value). \<open>resource_get rid n\<close> says whether the \<open>n\<close>-th poll of \<open>rid\<close>
  still finds the resource.
\<close>

record env =
  get_credentials :: "py_error + string"
  api_version :: string
  getpass :: "string \<Rightarrow> py_error + string"
  get_root_ca_cert :: "string \<Rightarrow> py_error + string"
  get_anf_capacity_pool :: "string \<Rightarrow> string"
  get_resource_value :: "string \<Rightarrow> string \<Rightarrow> string"
  get_anf_volume :: "string \<Rightarrow> string"
  accounts_create_or_update ::
    "net_app_account \<Rightarrow> string \<Rightarrow> string \<Rightarrow> py_error + (py_error + account_resource)"
  pools_create_or_update ::
    "capacity_pool \<Rightarrow> string \<Rightarrow> string \<Rightarrow> string \<Rightarrow> py_error + (py_error + pool_resource)"
  volumes_create_or_update ::
    "volume \<Rightarrow> string \<Rightarrow> string \<Rightarrow> string \<Rightarrow> string \<Rightarrow> py_error + (py_error + volume_resource)"
  volumes_delete :: "string \<Rightarrow> string \<Rightarrow> string \<Rightarrow> string \<Rightarrow> py_error + (py_error + unit)"
  pools_delete :: "string \<Rightarrow> string \<Rightarrow> string \<Rightarrow> py_error + (py_error + unit)"
  accounts_delete :: "string \<Rightarrow> string \<Rightarrow> py_error + (py_error + unit)"
  resource_get :: "string \<Rightarrow> nat \<Rightarrow> bool"

text \<open>An \<open>LROPoller\<close>: the operation it belongs to and what waiting on it will deliver.\<close>

datatype 'a lro_poller = LROPoller api_op "py_error + 'a"

type_synonym 'a outcome = "(py_error + 'a) \<times> trace"

definition sdk_call :: "api_op \<Rightarrow> py_error + (py_error + 'a) \<Rightarrow> trace \<Rightarrow> 'a lro_poller outcome" where
  "sdk_call op reply tr =
     (case reply of
        Inl e \<Rightarrow> (Inl e, tr @ [LroRefused op])
      | Inr r \<Rightarrow> (Inr (LROPoller op r), tr @ [LroBegin op]))"

text \<open>\<open>poller.result()\<close>: blocks until the operation is over, then returns or raises.\<close>

definition result :: "'a lro_poller \<Rightarrow> trace \<Rightarrow> 'a outcome" where
  "result poller tr = (case poller of LROPoller op r \<Rightarrow> (r, tr @ [LroDone op]))"

text \<open>\<open>poller.wait()\<close>: the same, for the delete operations, which deliver nothing.\<close>

definition wait :: "unit lro_poller \<Rightarrow> trace \<Rightarrow> unit outcome" where
  "wait poller tr = (case poller of LROPoller op r \<Rightarrow> (r, tr @ [LroDone op]))"

text \<open>
  \<open>try: ... except CloudError as ex: console_output(msg.format(ex.message)); raise\<close>,
  for a message template \<open>msg\<close> that ends in its only placeholder.
\<close>

definition except_CloudError :: "string \<Rightarrow> 'a outcome \<Rightarrow> 'a outcome" where
  "except_CloudError msg out =
     (case out of
        (Inl (CloudError m), tr) \<Rightarrow> (Inl (CloudError m), tr @ [ConsoleOutput (msg @ m)])
      | _ \<Rightarrow> out)"

subsection \<open>\<open>base64.b64encode\<close>\<close>

text \<open>
  The standard library's encoder (RFC 4648, section 4): three bytes become four
  characters of the alphabet, and a last group of one or two bytes is padded with \<open>=\<close>.
\<close>

definition b64_alphabet :: string where
  "b64_alphabet = ''ABCDEFGHIJKLMNOPQRSTUVWXYZabcdefghijklmnopqrstuvwxyz0123456789+/''"

definition b64_char :: "nat \<Rightarrow> char" where
  "b64_char n = b64_alphabet ! (n mod 64)"

fun b64encode :: "string \<Rightarrow> string" where
  "b64encode [] = []"
| "b64encode [a] =
     (let x = (of_char a :: nat)
      in [b64_char (x div 4), b64_char ((x mod 4) * 16), CHR ''='', CHR ''=''])"
| "b64encode [a, b] =
     (let x = (of_char a :: nat); y = (of_char b :: nat)
      in [b64_char (x div 4), b64_char ((x mod 4) * 16 + y div 16),
          b64_char ((y mod 16) * 4), CHR ''=''])"
| "b64encode (a # b # c # rest) =
     (let x = (of_char a :: nat); y = (of_char b :: nat); z = (of_char c :: nat)
      in [b64_char (x div 4), b64_char ((x mod 4) * 16 + y div 16),
          b64_char ((y mod 16) * 4 + z div 64), b64_char (z mod 64)] @ b64encode rest)"

subsection \<open>\<open>create_account\<close> (lines 44-77)\<close>

definition create_account ::
  "env \<Rightarrow> string \<Rightarrow> string \<Rightarrow> string \<Rightarrow> string \<Rightarrow> string \<Rightarrow> tags option \<Rightarrow> trace
   \<Rightarrow> account_resource outcome" where
  "create_account anf_client resource_group_name anf_account_name location
                  domain_join_user_password root_cert tags tr =
     (let active_directory =
            \<lparr>username = DOMAIN_JOIN_USERNAME,
             password = domain_join_user_password,
             domain = AD_FQDN,
             dns = DNS_LIST,
             smb_server_name = SMB_SERVERNAME_PREFIX,
             server_root_ca_certificate = root_cert\<rparr>;
          account_body =
            \<lparr>acct_location = location,
             acct_tags = tags,
             active_directories = [active_directory]\<rparr>
      in case sdk_call (AccountsCreateOrUpdate account_body resource_group_name anf_account_name)
                (accounts_create_or_update anf_client account_body resource_group_name
                   anf_account_name) tr of
           (Inl e, tr') \<Rightarrow> (Inl e, tr')
         | (Inr poller, tr') \<Rightarrow> result poller tr')"

subsection \<open>\<open>create_capacity_pool\<close> (lines 80-115)\<close>

definition create_capacity_pool ::
  "env \<Rightarrow> string \<Rightarrow> string \<Rightarrow> string \<Rightarrow> int \<Rightarrow> string \<Rightarrow> tags option \<Rightarrow> trace
   \<Rightarrow> pool_resource outcome" where
  "create_capacity_pool anf_client resource_group_name anf_account_name capacity_pool_name
                        size_arg location tags tr =
     (let capacity_pool_body =
            \<lparr>pool_location = location,
             pool_service_level = CAPACITY_POOL_SERVICE_LEVEL,
             pool_size = size_arg\<rparr>
      in case sdk_call (PoolsCreateOrUpdate capacity_pool_body resource_group_name
                          anf_account_name capacity_pool_name)
                (pools_create_or_update anf_client capacity_pool_body resource_group_name
                   anf_account_name capacity_pool_name) tr of
           (Inl e, tr') \<Rightarrow> (Inl e, tr')
         | (Inr poller, tr') \<Rightarrow> result poller tr')"

subsection \<open>\<open>create_volume\<close> (lines 118-167)\<close>

definition create_volume ::
  "env \<Rightarrow> string \<Rightarrow> string \<Rightarrow> string \<Rightarrow> string \<Rightarrow> int \<Rightarrow> string \<Rightarrow> string
   \<Rightarrow> volume_properties_data_protection option \<Rightarrow> tags option \<Rightarrow> trace
   \<Rightarrow> volume_resource outcome" where
  "create_volume anf_client resource_group_name anf_account_name capacity_pool_name
                 volume_name volume_size subnet location data_protection_arg tags tr =
     (let protocols = [''CIFS'', ''NFSv3''];
          volume_body =
            \<lparr>usage_threshold = volume_size,
             creation_token = volume_name,
             vol_location = location,
             vol_service_level = CAPACITY_POOL_SERVICE_LEVEL,
             subnet_id = subnet,
             protocol_types = protocols,
             data_protection = data_protection_arg,
             security_style = ''ntfs''\<rparr>
      in case sdk_call (VolumesCreateOrUpdate volume_body resource_group_name anf_account_name
                          capacity_pool_name volume_name)
                (volumes_create_or_update anf_client volume_body resource_group_name
                   anf_account_name capacity_pool_name volume_name) tr of
           (Inl e, tr') \<Rightarrow> (Inl e, tr')
         | (Inr poller, tr') \<Rightarrow> result poller tr')"

subsection \<open>\<open>wait_for_no_anf_resource\<close>\<close>

text \<open>
  Modelled from the spec: \<open>wait_for_no_anf_resource\<close> lives in \<open>sample_utils\<close>, which
  is not among the sources. The spec says of the teardown that it deletes each resource,
  "polling until each disappears"; so the helper polls the resource and returns at the
  first poll that no longer finds it. It returns nothing, and where the resource never
  disappears it never returns: that is the value \<open>None\<close>.
\<close>

partial_function (option) poll_until_gone :: "env \<Rightarrow> string \<Rightarrow> nat \<Rightarrow> trace \<Rightarrow> trace option" where
  "poll_until_gone anf_client resource_id n tr =
     (if resource_get anf_client resource_id n
      then poll_until_gone anf_client resource_id (Suc n) (tr @ [ResourceGet resource_id True])
      else Some (tr @ [ResourceGet resource_id False]))"

declare poll_until_gone.simps [code]

definition wait_for_no_anf_resource :: "env \<Rightarrow> string \<Rightarrow> trace \<Rightarrow> trace option" where
  "wait_for_no_anf_resource anf_client resource_id tr = poll_until_gone anf_client resource_id 0 tr"

subsection \<open>\<open>run_example\<close> (lines 170-320)\<close>

definition tab :: string where
  "tab = [CHR 0x09]"

text \<open>Lines 197-209: the \<open>try\<close> statement around \<open>create_account\<close>.\<close>

definition run_example_account :: "env \<Rightarrow> string \<Rightarrow> string \<Rightarrow> trace \<Rightarrow> account_resource outcome" where
  "run_example_account anf_client domain_join_user_password encoded_cert tr =
     except_CloudError ''An error occurred while creating Account: ''
       (case create_account anf_client RESOURCE_GROUP_NAME ANF_ACCOUNT_NAME LOCATION
               domain_join_user_password encoded_cert None tr of
          (Inl e, tr') \<Rightarrow> (Inl e, tr')
        | (Inr anf_account, tr') \<Rightarrow>
            (Inr anf_account,
             tr' @ [ConsoleOutput (tab @ ''Account successfully created. Resource id: ''
                                   @ account_id anf_account)]))"

text \<open>Lines 214-226: the \<open>try\<close> statement around \<open>create_capacity_pool\<close>.\<close>

definition run_example_pool :: "env \<Rightarrow> account_resource \<Rightarrow> trace \<Rightarrow> pool_resource outcome" where
  "run_example_pool anf_client anf_account tr =
     except_CloudError ''An error occurred while creating Capacity Pool: ''
       (case create_capacity_pool anf_client RESOURCE_GROUP_NAME (account_name anf_account)
               CAPACITY_POOL_NAME CAPACITY_POOL_SIZE LOCATION None tr of
          (Inl e, tr') \<Rightarrow> (Inl e, tr')
        | (Inr capacity_pool, tr') \<Rightarrow>
            (Inr capacity_pool,
             tr' @ [ConsoleOutput (tab @ ''Capacity Pool successfully created. Resource id: ''
                                   @ pool_id capacity_pool)]))"

text \<open>Lines 233-249: the \<open>try\<close> statement around \<open>create_volume\<close>.\<close>

definition run_example_volume ::
  "env \<Rightarrow> account_resource \<Rightarrow> pool_resource \<Rightarrow> string \<Rightarrow> trace \<Rightarrow> volume_resource outcome" where
  "run_example_volume anf_client anf_account capacity_pool subnet tr =
     except_CloudError ''An error occurred while creating Volume: ''
       (let pool_name = get_anf_capacity_pool anf_client (pool_id capacity_pool)
        in case create_volume anf_client RESOURCE_GROUP_NAME (account_name anf_account)
                  pool_name VOLUME_NAME VOLUME_SIZE subnet LOCATION None None tr of
             (Inl e, tr') \<Rightarrow> (Inl e, tr')
           | (Inr vol, tr') \<Rightarrow>
               (Inr vol,
                tr' @ [ConsoleOutput (tab @ ''Volume successfully created. Resource id: ''
                                      @ volume_id vol)]))"

text \<open>
  Lines 251-253. \<open>volume.mount_targets[0]\<close> is evaluated for the second line, after the
  first has been printed; on an empty list it raises \<open>IndexError\<close>.
\<close>

definition run_example_mounts :: "volume_resource \<Rightarrow> trace \<Rightarrow> unit outcome" where
  "run_example_mounts vol tr =
     (let tr1 = tr @ [ConsoleOutputList ''Current Volume protocol types: {}''
                        (volume_protocol_types vol)]
      in case mount_targets vol of
           [] \<Rightarrow> (Inl IndexError, tr1)
         | m # _ \<Rightarrow>
             (Inr (),
              tr1 @ [ConsoleOutput (''SMB Server FQDN: '' @ smb_server_fqdn m),
                     ConsoleOutput (''NFS IP Address: '' @ ip_address m)]))"

text \<open>Lines 270-282: the loop over \<open>volume_ids\<close>.\<close>

fun delete_volumes :: "env \<Rightarrow> account_resource \<Rightarrow> string list \<Rightarrow> trace \<Rightarrow> unit outcome option" where
  "delete_volumes anf_client anf_account [] tr = Some (Inr (), tr)"
| "delete_volumes anf_client anf_account (vol_id # volume_ids) tr =
     (let pool_name = get_resource_value anf_client vol_id ''capacityPools'';
          volume_name = get_anf_volume anf_client vol_id;
          tr1 = tr @ [ConsoleOutput (tab @ ''Deleting '' @ volume_name)]
      in case sdk_call (VolumesDelete RESOURCE_GROUP_NAME (account_name anf_account)
                          pool_name volume_name)
                (volumes_delete anf_client RESOURCE_GROUP_NAME (account_name anf_account)
                   pool_name volume_name) tr1 of
           (Inl e, tr2) \<Rightarrow> Some (Inl e, tr2)
         | (Inr poller, tr2) \<Rightarrow>
             (case wait poller tr2 of
                (Inl e, tr3) \<Rightarrow> Some (Inl e, tr3)
              | (Inr u, tr3) \<Rightarrow>
                  (case wait_for_no_anf_resource anf_client vol_id tr3 of
                     None \<Rightarrow> None
                   | Some tr4 \<Rightarrow>
                       delete_volumes anf_client anf_account volume_ids
                         (tr4 @ [ConsoleOutput (tab @ tab @ ''Successfully deleted Volume: ''
                                                @ vol_id)]))))"

text \<open>Lines 292-301: the loop over \<open>pool_ids\<close>.\<close>

fun delete_pools :: "env \<Rightarrow> account_resource \<Rightarrow> string list \<Rightarrow> trace \<Rightarrow> unit outcome option" where
  "delete_pools anf_client anf_account [] tr = Some (Inr (), tr)"
| "delete_pools anf_client anf_account (p_id # pool_ids) tr =
     (let pool_name = get_anf_capacity_pool anf_client p_id;
          tr1 = tr @ [ConsoleOutput (tab @ ''Deleting '' @ pool_name)]
      in case sdk_call (PoolsDelete RESOURCE_GROUP_NAME (account_name anf_account) pool_name)
                (pools_delete anf_client RESOURCE_GROUP_NAME (account_name anf_account)
                   pool_name) tr1 of
           (Inl e, tr2) \<Rightarrow> Some (Inl e, tr2)
         | (Inr poller, tr2) \<Rightarrow>
             (case wait poller tr2 of
                (Inl e, tr3) \<Rightarrow> Some (Inl e, tr3)
              | (Inr u, tr3) \<Rightarrow>
                  (case wait_for_no_anf_resource anf_client p_id tr3 of
                     None \<Rightarrow> None
                   | Some tr4 \<Rightarrow>
                       delete_pools anf_client anf_account pool_ids
                         (tr4 @ [ConsoleOutput (tab @ tab @ ''Successfully deleted Capacity Pool: ''
                                                @ p_id)]))))"

text \<open>Lines 310-315: the body of the \<open>try\<close> statement that deletes the account.\<close>

definition delete_account :: "env \<Rightarrow> account_resource \<Rightarrow> trace \<Rightarrow> unit outcome" where
  "delete_account anf_client anf_account tr =
     (let tr1 = tr @ [ConsoleOutput (tab @ ''Deleting '' @ account_name anf_account)]
      in case sdk_call (AccountsDelete RESOURCE_GROUP_NAME (account_name anf_account))
                (accounts_delete anf_client RESOURCE_GROUP_NAME (account_name anf_account))
                tr1 of
           (Inl e, tr2) \<Rightarrow> (Inl e, tr2)
         | (Inr poller, tr2) \<Rightarrow>
             (case wait poller tr2 of
                (Inl e, tr3) \<Rightarrow> (Inl e, tr3)
              | (Inr u, tr3) \<Rightarrow>
                  (Inr (),
                   tr3 @ [ConsoleOutput (tab @ tab @ ''Successfully deleted Account: ''
                                         @ account_id anf_account)])))"

text \<open>Lines 263-318: the body of \<open>if CLEANUP_RESOURCES:\<close>, three \<open>try\<close> statements.\<close>

definition run_example_cleanup ::
  "env \<Rightarrow> account_resource \<Rightarrow> pool_resource \<Rightarrow> volume_resource \<Rightarrow> trace \<Rightarrow> unit outcome option" where
  "run_example_cleanup anf_client anf_account capacity_pool vol tr =
     (case map_option (except_CloudError ''An error occurred while deleting volumes: '')
             (delete_volumes anf_client anf_account [volume_id vol]
                (tr @ [ConsoleOutput ''Cleaning up resources'',
                       ConsoleOutput ''Deleting Volumes...''])) of
        None \<Rightarrow> None
      | Some (Inl e, tr1) \<Rightarrow> Some (Inl e, tr1)
      | Some (Inr u, tr1) \<Rightarrow>
          (case map_option (except_CloudError ''An error occurred while deleting capacity pools: '')
                  (delete_pools anf_client anf_account [pool_id capacity_pool]
                     (tr1 @ [ConsoleOutput ''Deleting Capacity Pools...''])) of
             None \<Rightarrow> None
           | Some (Inl e, tr2) \<Rightarrow> Some (Inl e, tr2)
           | Some (Inr u, tr2) \<Rightarrow>
               Some (except_CloudError ''An error occurred while deleting accounts: ''
                       (delete_account anf_client anf_account
                          (tr2 @ [ConsoleOutput ''Deleting Account...''])))))"

definition getpass_prompt :: string where
  "getpass_prompt = ''Please type Active Directory's user password that will domain join ANF's SMB server and press [ENTER]:''"

text \<open>
  Lines 173-253: everything before \<open>if CLEANUP_RESOURCES:\<close>. It ends in an exception
  or hands the three created resources to the rest of \<open>run_example\<close>.
\<close>

definition run_example_provision ::
  "env \<Rightarrow> (account_resource \<times> pool_resource \<times> volume_resource) outcome" where
  "run_example_provision world =
     (let tr0 = [PrintHeader ''Azure NetAppFiles Python SDK Samples - Sample project that creates a Dual-Protocol Volume using the Azure NetApp Files SDK'',
                 GetCredentials]
      in case get_credentials world of
           Inl e \<Rightarrow> (Inl e, tr0)
         | Inr subscription_id \<Rightarrow>
      (let tr1 = tr0 @ [ConsoleOutput ''Instantiating a new Azure NetApp Files management client...'',
                        NewClient subscription_id,
                        ConsoleOutput (''Api Version: '' @ api_version world),
                        GetPass getpass_prompt]
       in case getpass world getpass_prompt of
            Inl e \<Rightarrow> (Inl e, tr1)
          | Inr domain_join_user_password \<Rightarrow>
      (let tr2 = tr1 @ [GetRootCaCert ROOT_CA_CERT_FULL_FILEPATH]
       in case get_root_ca_cert world ROOT_CA_CERT_FULL_FILEPATH of
            Inl e \<Rightarrow> (Inl e, tr2)
          | Inr cert_content \<Rightarrow>
      (let tr3 = tr2 @ [ConsoleOutput ''Encoding certificate contents as base64 string...''];
           encoded_cert_content = b64encode cert_content;
           tr4 = tr3 @ [ConsoleOutput ''Creating ANF Resources...'',
                        ConsoleOutput ''Creating Account...'']
       in case run_example_account world domain_join_user_password encoded_cert_content tr4 of
            (Inl e, tr5) \<Rightarrow> (Inl e, tr5)
          | (Inr anf_account, tr5) \<Rightarrow>
      (case run_example_pool world anf_account
              (tr5 @ [ConsoleOutput ''Creating Capacity Pool...'']) of
            (Inl e, tr6) \<Rightarrow> (Inl e, tr6)
          | (Inr capacity_pool, tr6) \<Rightarrow>
      (let tr7 = tr6 @ [ConsoleOutput ''Creating Volume with dual-protocol...''];
           subnet =
             ''/subscriptions/'' @ subscription_id @ ''/resourceGroups/'' @ RESOURCE_GROUP_NAME
             @ ''/providers/Microsoft.Network/virtualNetworks/'' @ VNET_NAME
             @ ''/subnets/'' @ SUBNET_NAME
       in case run_example_volume world anf_account capacity_pool subnet tr7 of
            (Inl e, tr8) \<Rightarrow> (Inl e, tr8)
          | (Inr vol, tr8) \<Rightarrow>
      (case run_example_mounts vol tr8 of
            (Inl e, tr9) \<Rightarrow> (Inl e, tr9)
          | (Inr u, tr9) \<Rightarrow> (Inr (anf_account, capacity_pool, vol), tr9))))))))"

text \<open>
  The whole procedure. \<open>None\<close> is a run that never returns (a poll loop that never
  ends); \<open>Some (Inl e, tr)\<close> is a run that ends in the exception \<open>e\<close> after the events
  \<open>tr\<close>; \<open>Some (Inr (), tr)\<close> is a run that reaches the last line (320).
\<close>

definition run_example :: "env \<Rightarrow> bool \<Rightarrow> unit outcome option" where
  "run_example world cleanup_resources =
     (case run_example_provision world of
        (Inl e, tr) \<Rightarrow> Some (Inl e, tr)
      | (Inr (anf_account, capacity_pool, vol), tr) \<Rightarrow>
          (case (if cleanup_resources
                 then run_example_cleanup world anf_account capacity_pool vol tr
                 else Some (Inr (), tr)) of
             None \<Rightarrow> None
           | Some (Inl e, tr') \<Rightarrow> Some (Inl e, tr')
           | Some (Inr u, tr') \<Rightarrow>
               Some (Inr (),
                     tr' @ [ConsoleOutput ''ANF Dual-Protocol sample has completed successfully''])))"

text \<open>Lines 323-324: the script as shipped.\<close>

definition main :: "env \<Rightarrow> unit outcome option" where
  "main world = run_example world CLEANUP_RESOURCES"

subsection \<open>Reading a trace\<close>

text \<open>The operations for which an SDK method was called, in the order of the calls.\<close>

definition request_of :: "event \<Rightarrow> api_op list" where
  "request_of e = (case e of LroBegin op \<Rightarrow> [op] | LroRefused op \<Rightarrow> [op] | _ \<Rightarrow> [])"

definition requests :: "trace \<Rightarrow> api_op list" where
  "requests tr = concat (map request_of tr)"

text \<open>The request bodies of the three kinds of creation.\<close>

definition account_requests :: "trace \<Rightarrow> net_app_account list" where
  "account_requests tr =
     concat (map (\<lambda>op. case op of AccountsCreateOrUpdate b rg n \<Rightarrow> [b] | _ \<Rightarrow> []) (requests tr))"

definition pool_requests :: "trace \<Rightarrow> capacity_pool list" where
  "pool_requests tr =
     concat (map (\<lambda>op. case op of PoolsCreateOrUpdate b rg a n \<Rightarrow> [b] | _ \<Rightarrow> []) (requests tr))"

definition volume_requests :: "trace \<Rightarrow> volume list" where
  "volume_requests tr =
     concat (map (\<lambda>op. case op of VolumesCreateOrUpdate b rg a p n \<Rightarrow> [b] | _ \<Rightarrow> []) (requests tr))"

text \<open>
  The steps of the orchestration, and the trace read as the sequence of steps called
  and steps completed (a called step is one whose SDK method was invoked, whether it
  returned a poller or raised).
\<close>

datatype step = CreateAccount | CreatePool | CreateVolume | DeleteVolume | DeletePool | DeleteAccount

fun op_step :: "api_op \<Rightarrow> step" where
  "op_step (AccountsCreateOrUpdate b rg n) = CreateAccount"
| "op_step (PoolsCreateOrUpdate b rg a n) = CreatePool"
| "op_step (VolumesCreateOrUpdate b rg a p n) = CreateVolume"
| "op_step (VolumesDelete rg a p n) = DeleteVolume"
| "op_step (PoolsDelete rg a n) = DeletePool"
| "op_step (AccountsDelete rg n) = DeleteAccount"

datatype phase = Called step | Completed step

definition phase_of :: "event \<Rightarrow> phase list" where
  "phase_of e =
     (case e of
        LroBegin op \<Rightarrow> [Called (op_step op)]
      | LroRefused op \<Rightarrow> [Called (op_step op)]
      | LroDone op \<Rightarrow> [Completed (op_step op)]
      | _ \<Rightarrow> [])"

definition lro_phases :: "trace \<Rightarrow> phase list" where
  "lro_phases tr = concat (map phase_of tr)"

definition creation_schedule :: "phase list" where
  "creation_schedule =
     [Called CreateAccount, Completed CreateAccount,
      Called CreatePool, Completed CreatePool,
      Called CreateVolume, Completed CreateVolume]"

definition teardown_schedule :: "phase list" where
  "teardown_schedule =
     [Called DeleteVolume, Completed DeleteVolume,
      Called DeletePool, Completed DeletePool,
      Called DeleteAccount, Completed DeleteAccount]"

definition schedule :: "bool \<Rightarrow> phase list" where
  "schedule cleanup_resources =
     creation_schedule @ (if cleanup_resources then teardown_schedule else [])"

text \<open>
  The resources that completed creations delivered, and the parents that the pool and
  volume requests name.
\<close>

definition created_accounts :: "env \<Rightarrow> trace \<Rightarrow> account_resource list" where
  "created_accounts w tr =
     concat (map (\<lambda>e. case e of
                          LroDone (AccountsCreateOrUpdate b rg n) \<Rightarrow>
                            (case accounts_create_or_update w b rg n of
                               Inr (Inr a) \<Rightarrow> [a] | _ \<Rightarrow> [])
                        | _ \<Rightarrow> []) tr)"

definition created_pools :: "env \<Rightarrow> trace \<Rightarrow> pool_resource list" where
  "created_pools w tr =
     concat (map (\<lambda>e. case e of
                          LroDone (PoolsCreateOrUpdate b rg a n) \<Rightarrow>
                            (case pools_create_or_update w b rg a n of
                               Inr (Inr p) \<Rightarrow> [p] | _ \<Rightarrow> [])
                        | _ \<Rightarrow> []) tr)"

definition created_volumes :: "env \<Rightarrow> trace \<Rightarrow> volume_resource list" where
  "created_volumes w tr =
     concat (map (\<lambda>e. case e of
                          LroDone (VolumesCreateOrUpdate b rg a p n) \<Rightarrow>
                            (case volumes_create_or_update w b rg a p n of
                               Inr (Inr v) \<Rightarrow> [v] | _ \<Rightarrow> [])
                        | _ \<Rightarrow> []) tr)"

definition pool_parents :: "trace \<Rightarrow> string list" where
  "pool_parents tr =
     concat (map (\<lambda>op. case op of PoolsCreateOrUpdate b rg a n \<Rightarrow> [a] | _ \<Rightarrow> []) (requests tr))"

definition volume_parents :: "trace \<Rightarrow> (string \<times> string) list" where
  "volume_parents tr =
     concat (map (\<lambda>op. case op of VolumesCreateOrUpdate b rg a p n \<Rightarrow> [(a, p)] | _ \<Rightarrow> [])
               (requests tr))"

text \<open>The events of the teardown: what concerns a delete operation, and the polls.\<close>

definition is_delete :: "api_op \<Rightarrow> bool" where
  "is_delete op =
     (case op of
        VolumesDelete rg a p n \<Rightarrow> True
      | PoolsDelete rg a n \<Rightarrow> True
      | AccountsDelete rg n \<Rightarrow> True
      | _ \<Rightarrow> False)"

definition teardown_event :: "event \<Rightarrow> bool" where
  "teardown_event e =
     (case e of
        LroBegin op \<Rightarrow> is_delete op
      | LroRefused op \<Rightarrow> is_delete op
      | LroDone op \<Rightarrow> is_delete op
      | ResourceGet rid found \<Rightarrow> True
      | _ \<Rightarrow> False)"

definition teardown_events :: "trace \<Rightarrow> trace" where
  "teardown_events tr = filter teardown_event tr"

text \<open>\<open>k\<close> polls that still find the resource, then the one that does not.\<close>

definition polls :: "string \<Rightarrow> nat \<Rightarrow> trace" where
  "polls rid k = replicate k (ResourceGet rid True) @ [ResourceGet rid False]"

text \<open>
  Every operation that starts is waited on at once: each \<open>LroBegin op\<close> is followed
  immediately by \<open>LroDone op\<close>, and no \<open>LroDone\<close> stands anywhere else.
\<close>

fun lro_waited :: "trace \<Rightarrow> bool" where
  "lro_waited [] = True"
| "lro_waited (e # es) =
     (case e of
        LroBegin op \<Rightarrow>
          (case es of LroDone op' # es' \<Rightarrow> op = op' \<and> lro_waited es' | _ \<Rightarrow> False)
      | LroDone op \<Rightarrow> False
      | _ \<Rightarrow> lro_waited es)"

text \<open>
  What an operation delivers in a given world: the exception it raises, at the call
  or while waiting, or nothing. And the message of the \<open>except\<close> clause that guards it.
\<close>

definition lro_value :: "py_error + (py_error + 'a) \<Rightarrow> py_error + 'a" where
  "lro_value reply = (case reply of Inl e \<Rightarrow> Inl e | Inr r \<Rightarrow> r)"

definition raised :: "py_error + 'a \<Rightarrow> py_error option" where
  "raised r = (case r of Inl e \<Rightarrow> Some e | Inr x \<Rightarrow> None)"

definition lro_error :: "env \<Rightarrow> api_op \<Rightarrow> py_error option" where
  "lro_error w op =
     (case op of
        AccountsCreateOrUpdate b rg n \<Rightarrow> raised (lro_value (accounts_create_or_update w b rg n))
      | PoolsCreateOrUpdate b rg a n \<Rightarrow> raised (lro_value (pools_create_or_update w b rg a n))
      | VolumesCreateOrUpdate b rg a p n \<Rightarrow>
          raised (lro_value (volumes_create_or_update w b rg a p n))
      | VolumesDelete rg a p n \<Rightarrow> raised (lro_value (volumes_delete w rg a p n))
      | PoolsDelete rg a n \<Rightarrow> raised (lro_value (pools_delete w rg a n))
      | AccountsDelete rg n \<Rightarrow> raised (lro_value (accounts_delete w rg n)))"

definition step_message :: "step \<Rightarrow> string" where
  "step_message s =
     (case s of
        CreateAccount \<Rightarrow> ''An error occurred while creating Account: ''
      | CreatePool \<Rightarrow> ''An error occurred while creating Capacity Pool: ''
      | CreateVolume \<Rightarrow> ''An error occurred while creating Volume: ''
      | DeleteVolume \<Rightarrow> ''An error occurred while deleting volumes: ''
      | DeletePool \<Rightarrow> ''An error occurred while deleting capacity pools: ''
      | DeleteAccount \<Rightarrow> ''An error occurred while deleting accounts: '')"

text \<open>
  The end of a trace whose last step \<open>op\<close> failed with a cloud error of message \<open>m\<close>:
  the call that raised, or the call and the wait that raised, and then the line of the
  \<open>except\<close> clause as the last event.
\<close>

definition logged_failure :: "api_op \<Rightarrow> string \<Rightarrow> trace \<Rightarrow> bool" where
  "logged_failure op m tr \<longleftrightarrow>
     suffix [LroRefused op, ConsoleOutput (step_message (op_step op) @ m)] tr
     \<or> suffix [LroBegin op, LroDone op, ConsoleOutput (step_message (op_step op) @ m)] tr"

subsection \<open>Auxiliary definitions for the proofs\<close>

text \<open>
  The events of one SDK call that is waited on, the line an \<open>except\<close> clause prints,
  and the three request bodies that \<open>run_example\<close> sends.
\<close>

definition lro_events :: "api_op \<Rightarrow> py_error + (py_error + 'a) \<Rightarrow> trace" where
  "lro_events op reply =
     (case reply of Inl e \<Rightarrow> [LroRefused op] | Inr r \<Rightarrow> [LroBegin op, LroDone op])"

definition error_log :: "string \<Rightarrow> py_error \<Rightarrow> trace" where
  "error_log msg e = (case e of CloudError m \<Rightarrow> [ConsoleOutput (msg @ m)] | _ \<Rightarrow> [])"

definition account_body :: "string \<Rightarrow> string \<Rightarrow> net_app_account" where
  "account_body pw cert =
     \<lparr>acct_location = LOCATION, acct_tags = None,
      active_directories =
        [\<lparr>username = DOMAIN_JOIN_USERNAME, password = pw, domain = AD_FQDN,
          dns = DNS_LIST, smb_server_name = SMB_SERVERNAME_PREFIX,
          server_root_ca_certificate = cert\<rparr>]\<rparr>"

definition pool_body :: capacity_pool where
  "pool_body =
     \<lparr>pool_location = LOCATION, pool_service_level = CAPACITY_POOL_SERVICE_LEVEL,
      pool_size = CAPACITY_POOL_SIZE\<rparr>"

definition volume_body :: "string \<Rightarrow> volume" where
  "volume_body subnet =
     \<lparr>usage_threshold = VOLUME_SIZE, creation_token = VOLUME_NAME, vol_location = LOCATION,
      vol_service_level = CAPACITY_POOL_SERVICE_LEVEL, subnet_id = subnet,
      protocol_types = [''CIFS'', ''NFSv3''], data_protection = None,
      security_style = ''ntfs''\<rparr>"

text \<open>
  The outcome and the events of the cleanup block when its two poll loops take \<open>k1\<close>
  and \<open>k2\<close> polls that still find the resource.
\<close>

definition cleanup_events ::
  "env \<Rightarrow> account_resource \<Rightarrow> pool_resource \<Rightarrow> volume_resource \<Rightarrow> nat \<Rightarrow> nat \<Rightarrow> unit outcome" where
  "cleanup_events w a p v k1 k2 =
     (let vd = VolumesDelete RESOURCE_GROUP_NAME (account_name a)
                 (get_resource_value w (volume_id v) ''capacityPools'')
                 (get_anf_volume w (volume_id v));
          vd_reply = volumes_delete w RESOURCE_GROUP_NAME (account_name a)
                 (get_resource_value w (volume_id v) ''capacityPools'')
                 (get_anf_volume w (volume_id v));
          pd = PoolsDelete RESOURCE_GROUP_NAME (account_name a)
                 (get_anf_capacity_pool w (pool_id p));
          pd_reply = pools_delete w RESOURCE_GROUP_NAME (account_name a)
                 (get_anf_capacity_pool w (pool_id p));
          ad = AccountsDelete RESOURCE_GROUP_NAME (account_name a);
          ad_reply = accounts_delete w RESOURCE_GROUP_NAME (account_name a);
          es1 = [ConsoleOutput ''Cleaning up resources'',
                 ConsoleOutput ''Deleting Volumes...'',
                 ConsoleOutput (tab @ ''Deleting '' @ get_anf_volume w (volume_id v))]
                @ lro_events vd vd_reply;
          es2 = es1 @ polls (volume_id v) k1
                @ [ConsoleOutput (tab @ tab @ ''Successfully deleted Volume: '' @ volume_id v),
                   ConsoleOutput ''Deleting Capacity Pools...'',
                   ConsoleOutput (tab @ ''Deleting '' @ get_anf_capacity_pool w (pool_id p))]
                @ lro_events pd pd_reply;
          es3 = es2 @ polls (pool_id p) k2
                @ [ConsoleOutput (tab @ tab @ ''Successfully deleted Capacity Pool: '' @ pool_id p),
                   ConsoleOutput ''Deleting Account...'',
                   ConsoleOutput (tab @ ''Deleting '' @ account_name a)]
                @ lro_events ad ad_reply
      in case lro_value vd_reply of
           Inl e \<Rightarrow> (Inl e, es1 @ error_log ''An error occurred while deleting volumes: '' e)
         | Inr u1 \<Rightarrow>
             (case lro_value pd_reply of
                Inl e \<Rightarrow>
                  (Inl e, es2 @ error_log ''An error occurred while deleting capacity pools: '' e)
              | Inr u2 \<Rightarrow>
                  (case lro_value ad_reply of
                     Inl e \<Rightarrow>
                       (Inl e, es3 @ error_log ''An error occurred while deleting accounts: '' e)
                   | Inr u3 \<Rightarrow>
                       (Inr (),
                        es3 @ [ConsoleOutput (tab @ tab @ ''Successfully deleted Account: ''
                                              @ account_id a)]))))"

subsection \<open>The teardown, step by step\<close>

text \<open>
  The three delete operations that the cleanup block sends for an account \<open>a\<close>, a pool
  \<open>p\<close> and a volume \<open>v\<close> (lines 271-278, 293-298 and 312-313).
\<close>

definition volume_deletion :: "env \<Rightarrow> account_resource \<Rightarrow> volume_resource \<Rightarrow> api_op" where
  "volume_deletion w a v =
     VolumesDelete RESOURCE_GROUP_NAME (account_name a)
       (get_resource_value w (volume_id v) ''capacityPools'') (get_anf_volume w (volume_id v))"

definition pool_deletion :: "env \<Rightarrow> account_resource \<Rightarrow> pool_resource \<Rightarrow> api_op" where
  "pool_deletion w a p =
     PoolsDelete RESOURCE_GROUP_NAME (account_name a) (get_anf_capacity_pool w (pool_id p))"

definition account_deletion :: "account_resource \<Rightarrow> api_op" where
  "account_deletion a = AccountsDelete RESOURCE_GROUP_NAME (account_name a)"

text \<open>
  The events of one operation that is called and waited on in a world: \<open>LroRefused\<close>
  if the call raises there, \<open>LroBegin\<close> and \<open>LroDone\<close> otherwise.
\<close>

definition lro_trace :: "env \<Rightarrow> api_op \<Rightarrow> trace" where
  "lro_trace w op =
     (case op of
        AccountsCreateOrUpdate b rg n \<Rightarrow> lro_events op (accounts_create_or_update w b rg n)
      | PoolsCreateOrUpdate b rg a n \<Rightarrow> lro_events op (pools_create_or_update w b rg a n)
      | VolumesCreateOrUpdate b rg a p n \<Rightarrow> lro_events op (volumes_create_or_update w b rg a p n)
      | VolumesDelete rg a p n \<Rightarrow> lro_events op (volumes_delete w rg a p n)
      | PoolsDelete rg a n \<Rightarrow> lro_events op (pools_delete w rg a n)
      | AccountsDelete rg n \<Rightarrow> lro_events op (accounts_delete w rg n))"

text \<open>
  The teardown as a sequence of events, for \<open>k1\<close> polls that still find the volume and
  \<open>k2\<close> polls that still find the pool: the volume deletion; if it did not raise, the
  polls of the volume and the pool deletion; if that did not raise, the polls of the
  pool and the account deletion; and nothing after the account deletion. With it, the
  outcome of the teardown: the first exception that a deletion raises, or none.
\<close>

definition teardown_plan ::
  "env \<Rightarrow> account_resource \<Rightarrow> pool_resource \<Rightarrow> volume_resource \<Rightarrow> nat \<Rightarrow> nat \<Rightarrow> trace" where
  "teardown_plan w a p v k1 k2 =
     lro_trace w (volume_deletion w a v)
     @ (case lro_error w (volume_deletion w a v) of
          Some e \<Rightarrow> []
        | None \<Rightarrow>
            polls (volume_id v) k1
            @ lro_trace w (pool_deletion w a p)
            @ (case lro_error w (pool_deletion w a p) of
                 Some e \<Rightarrow> []
               | None \<Rightarrow> polls (pool_id p) k2 @ lro_trace w (account_deletion a)))"

definition teardown_result ::
  "env \<Rightarrow> account_resource \<Rightarrow> pool_resource \<Rightarrow> volume_resource \<Rightarrow> py_error + unit" where
  "teardown_result w a p v =
     (case lro_error w (volume_deletion w a v) of
        Some e \<Rightarrow> Inl e
      | None \<Rightarrow>
          (case lro_error w (pool_deletion w a p) of
             Some e \<Rightarrow> Inl e
           | None \<Rightarrow>
               (case lro_error w (account_deletion a) of
                  Some e \<Rightarrow> Inl e
                | None \<Rightarrow> Inr ())))"

subsection \<open>Sample worlds\<close>

text \<open>
  A world in which every call succeeds and each deleted resource is still found by the
  first poll and gone at the second; and the operations \<open>run_example\<close> sends there.
\<close>

definition sample_env :: env where
  "sample_env =
     \<lparr>get_credentials = Inr ''sub1'',
      api_version = ''2020-02-01'',
      getpass = (\<lambda>prompt. Inr ''secret''),
      get_root_ca_cert = (\<lambda>path. Inr ''abc''),
      get_anf_capacity_pool = (\<lambda>rid. ''pool1''),
      get_resource_value = (\<lambda>rid key. ''pool1''),
      get_anf_volume = (\<lambda>rid. ''vol1''),
      accounts_create_or_update =
        (\<lambda>body rg n. Inr (Inr \<lparr>account_id = ''/acc1'', account_name = ''acc1''\<rparr>)),
      pools_create_or_update =
        (\<lambda>body rg a n. Inr (Inr \<lparr>pool_id = ''/acc1/pool1''\<rparr>)),
      volumes_create_or_update =
        (\<lambda>body rg a p n.
           Inr (Inr \<lparr>volume_id = ''/acc1/pool1/vol1'',
                     volume_protocol_types = [''CIFS'', ''NFSv3''],
                     mount_targets =
                       [\<lparr>smb_server_fqdn = ''smb.test'', ip_address = ''10.0.0.4''\<rparr>]\<rparr>)),
      volumes_delete = (\<lambda>rg a p v. Inr (Inr ())),
      pools_delete = (\<lambda>rg a p. Inr (Inr ())),
      accounts_delete = (\<lambda>rg a. Inr (Inr ())),
      resource_get = (\<lambda>rid n. n < 1)\<rparr>"

definition sample_account_op :: api_op where
  "sample_account_op =
     AccountsCreateOrUpdate
       \<lparr>acct_location = LOCATION, acct_tags = None,
        active_directories =
          [\<lparr>username = DOMAIN_JOIN_USERNAME, password = ''secret'', domain = AD_FQDN,
            dns = DNS_LIST, smb_server_name = SMB_SERVERNAME_PREFIX,
            server_root_ca_certificate = ''YWJj''\<rparr>]\<rparr>
       RESOURCE_GROUP_NAME ANF_ACCOUNT_NAME"

definition sample_pool_op :: api_op where
  "sample_pool_op =
     PoolsCreateOrUpdate
       \<lparr>pool_location = LOCATION, pool_service_level = ''Standard'',
        pool_size = CAPACITY_POOL_SIZE\<rparr>
       RESOURCE_GROUP_NAME ''acc1'' CAPACITY_POOL_NAME"

definition sample_volume_op :: api_op where
  "sample_volume_op =
     VolumesCreateOrUpdate
       \<lparr>usage_threshold = VOLUME_SIZE, creation_token = VOLUME_NAME, vol_location = LOCATION,
        vol_service_level = ''Standard'',
        subnet_id = ''/subscriptions/sub1/resourceGroups/<Resource Group Name>/providers/Microsoft.Network/virtualNetworks/<VNET>/subnets/<Subnet Name>'',
        protocol_types = [''CIFS'', ''NFSv3''], data_protection = None,
        security_style = ''ntfs''\<rparr>
       RESOURCE_GROUP_NAME ''acc1'' ''pool1'' VOLUME_NAME"

definition sample_prelude :: trace where
  "sample_prelude =
     [PrintHeader ''Azure NetAppFiles Python SDK Samples - Sample project that creates a Dual-Protocol Volume using the Azure NetApp Files SDK'',
      GetCredentials,
      ConsoleOutput ''Instantiating a new Azure NetApp Files management client...'',
      NewClient ''sub1'',
      ConsoleOutput ''Api Version: 2020-02-01'',
      GetPass getpass_prompt,
      GetRootCaCert ROOT_CA_CERT_FULL_FILEPATH,
      ConsoleOutput ''Encoding certificate contents as base64 string...'',
      ConsoleOutput ''Creating ANF Resources...'',
      ConsoleOutput ''Creating Account...'']"

definition sample_creation :: trace where
  "sample_creation =
     sample_prelude @
     [LroBegin sample_account_op,
      LroDone sample_account_op,
      ConsoleOutput (tab @ ''Account successfully created. Resource id: /acc1''),
      ConsoleOutput ''Creating Capacity Pool...'',
      LroBegin sample_pool_op,
      LroDone sample_pool_op,
      ConsoleOutput (tab @ ''Capacity Pool successfully created. Resource id: /acc1/pool1''),
      ConsoleOutput ''Creating Volume with dual-protocol...'',
      LroBegin sample_volume_op,
      LroDone sample_volume_op,
      ConsoleOutput (tab @ ''Volume successfully created. Resource id: /acc1/pool1/vol1''),
      ConsoleOutputList ''Current Volume protocol types: {}'' [''CIFS'', ''NFSv3'']]"

definition sample_provision :: trace where
  "sample_provision =
     sample_creation @
     [ConsoleOutput ''SMB Server FQDN: smb.test'',
      ConsoleOutput ''NFS IP Address: 10.0.0.4'']"

definition sample_teardown :: trace where
  "sample_teardown =
     [ConsoleOutput ''Cleaning up resources'',
      ConsoleOutput ''Deleting Volumes...'',
      ConsoleOutput (tab @ ''Deleting vol1''),
      LroBegin (VolumesDelete RESOURCE_GROUP_NAME ''acc1'' ''pool1'' ''vol1''),
      LroDone (VolumesDelete RESOURCE_GROUP_NAME ''acc1'' ''pool1'' ''vol1''),
      ResourceGet ''/acc1/pool1/vol1'' True,
      ResourceGet ''/acc1/pool1/vol1'' False,
      ConsoleOutput (tab @ tab @ ''Successfully deleted Volume: /acc1/pool1/vol1''),
      ConsoleOutput ''Deleting Capacity Pools...'',
      ConsoleOutput (tab @ ''Deleting pool1''),
      LroBegin (PoolsDelete RESOURCE_GROUP_NAME ''acc1'' ''pool1''),
      LroDone (PoolsDelete RESOURCE_GROUP_NAME ''acc1'' ''pool1''),
      ResourceGet ''/acc1/pool1'' True,
      ResourceGet ''/acc1/pool1'' False,
      ConsoleOutput (tab @ tab @ ''Successfully deleted Capacity Pool: /acc1/pool1''),
      ConsoleOutput ''Deleting Account...'',
      ConsoleOutput (tab @ ''Deleting acc1''),
      LroBegin (AccountsDelete RESOURCE_GROUP_NAME ''acc1''),
      LroDone (AccountsDelete RESOURCE_GROUP_NAME ''acc1''),
      ConsoleOutput (tab @ tab @ ''Successfully deleted Account: /acc1'')]"

definition sample_completed :: trace where
  "sample_completed = [ConsoleOutput ''ANF Dual-Protocol sample has completed successfully'']"

text \<open>The same world, except that the created volume comes back without mount targets.\<close>

definition no_mounts_env :: env where
  "no_mounts_env =
     sample_env\<lparr>volumes_create_or_update :=
        (\<lambda>body rg a p n.
           Inr (Inr \<lparr>volume_id = ''/acc1/pool1/vol1'',
                     volume_protocol_types = [''CIFS'', ''NFSv3''],
                     mount_targets = []\<rparr>))\<rparr>"

text \<open>The same world, except that the pool creation fails while it is waited on.\<close>

definition pool_fails_env :: env where
  "pool_fails_env =
     sample_env\<lparr>pools_create_or_update :=
        (\<lambda>body rg a n. Inr (Inl (CloudError ''quota exceeded'')))\<rparr>"

definition pool_fails_trace :: trace where
  "pool_fails_trace =
     sample_prelude @
     [LroBegin sample_account_op,
      LroDone sample_account_op,
      ConsoleOutput (tab @ ''Account successfully created. Resource id: /acc1''),
      ConsoleOutput ''Creating Capacity Pool...'',
      LroBegin sample_pool_op,
      LroDone sample_pool_op,
      ConsoleOutput ''An error occurred while creating Capacity Pool: quota exceeded'']"

text \<open>The same world, except that no deleted resource ever disappears.\<close>

definition never_gone_env :: env where
  "never_gone_env = sample_env\<lparr>resource_get := (\<lambda>rid n. True)\<rparr>"

section \<open>Proofs\<close>

subsection \<open>The poll loop\<close>

lemma poll_until_gone_step:
  assumes IH: "\<And>w rid n tr tr'. poll w rid n tr = Some tr' \<Longrightarrow>
                 \<exists>k. tr' = tr @ polls rid k \<and> \<not> resource_get w rid (n + k)
                     \<and> (\<forall>j<k. resource_get w rid (n + j))"
    and eq: "(if resource_get w rid n
              then poll w rid (Suc n) (tr @ [ResourceGet rid True])
              else Some (tr @ [ResourceGet rid False])) = Some tr'"
  shows "\<exists>k. tr' = tr @ polls rid k \<and> \<not> resource_get w rid (n + k)
             \<and> (\<forall>j<k. resource_get w rid (n + j))"
proof (cases "resource_get w rid n")
  case True
  with eq have "poll w rid (Suc n) (tr @ [ResourceGet rid True]) = Some tr'"
    by simp
  from IH [OF this] obtain k
    where k: "tr' = (tr @ [ResourceGet rid True]) @ polls rid k"
      "\<not> resource_get w rid (Suc n + k)" "\<forall>j<k. resource_get w rid (Suc n + j)"
    by blast
  have "tr' = tr @ polls rid (Suc k)"
    using k(1) by (simp add: polls_def)
  moreover have "\<not> resource_get w rid (n + Suc k)"
    using k(2) by simp
  moreover have "\<forall>j<Suc k. resource_get w rid (n + j)"
  proof (intro allI impI)
    fix j assume "j < Suc k"
    show "resource_get w rid (n + j)"
    proof (cases j)
      case 0
      with True show ?thesis by simp
    next
      case (Suc i)
      with \<open>j < Suc k\<close> k(3) show ?thesis by simp
    qed
  qed
  ultimately show ?thesis by blast
next
  case False
  with eq have "tr' = tr @ polls rid 0"
    by (simp add: polls_def)
  with False show ?thesis by force
qed

lemma poll_until_gone_trace:
  assumes "poll_until_gone w rid n tr = Some tr'"
  shows "\<exists>k. tr' = tr @ polls rid k \<and> \<not> resource_get w rid (n + k)
             \<and> (\<forall>j<k. resource_get w rid (n + j))"
  using assms
  by (rule poll_until_gone.raw_induct
        [where P = "\<lambda>w rid n tr tr'. \<exists>k. tr' = tr @ polls rid k
                      \<and> \<not> resource_get w rid (n + k) \<and> (\<forall>j<k. resource_get w rid (n + j))",
         rotated])
     (rule poll_until_gone_step)

text \<open>The loop returns as soon as one poll does not find the resource.\<close>

lemma poll_until_gone_returns:
  "\<not> resource_get w rid (n + k) \<Longrightarrow> (\<forall>j<k. resource_get w rid (n + j)) \<Longrightarrow>
   poll_until_gone w rid n tr = Some (tr @ polls rid k)"
proof (induction k arbitrary: n tr)
  case 0
  then show ?case by (subst poll_until_gone.simps) (simp add: polls_def)
next
  case (Suc k)
  from Suc.prems(2) have now: "resource_get w rid n"
    by (metis add.right_neutral zero_less_Suc)
  have later: "\<forall>j<k. resource_get w rid (Suc n + j)"
    using Suc.prems(2) by (metis add_Suc_shift Suc_less_eq)
  have gone: "\<not> resource_get w rid (Suc n + k)"
    using Suc.prems(1) by simp
  show ?case
    by (subst poll_until_gone.simps) (simp add: now Suc.IH [OF gone later] polls_def)
qed

text \<open>Whether and after how many polls it returns does not depend on the trace so far.\<close>

lemma wait_for_no_anf_resource_Some:
  assumes "wait_for_no_anf_resource w rid tr = Some tr'"
  shows "\<exists>k. wait_for_no_anf_resource w rid [] = Some (polls rid k) \<and> tr' = tr @ polls rid k"
proof -
  from assms obtain k
    where k: "tr' = tr @ polls rid k" "\<not> resource_get w rid (0 + k)"
      "\<forall>j<k. resource_get w rid (0 + j)"
    unfolding wait_for_no_anf_resource_def using poll_until_gone_trace by blast
  from poll_until_gone_returns [OF k(2) k(3), of "[]"]
  have "wait_for_no_anf_resource w rid [] = Some (polls rid k)"
    by (simp add: wait_for_no_anf_resource_def)
  with k(1) show ?thesis by blast
qed

lemma wait_for_no_anf_resource_Some_any:
  assumes "wait_for_no_anf_resource w rid [] = Some ps"
  shows "wait_for_no_anf_resource w rid tr = Some (tr @ ps)"
proof -
  from assms obtain k
    where k: "ps = [] @ polls rid k" "\<not> resource_get w rid (0 + k)"
      "\<forall>j<k. resource_get w rid (0 + j)"
    unfolding wait_for_no_anf_resource_def using poll_until_gone_trace by blast
  from poll_until_gone_returns [OF k(2) k(3), of tr] k(1) show ?thesis
    by (simp add: wait_for_no_anf_resource_def)
qed

lemma wait_for_no_anf_resource_None_any:
  assumes "wait_for_no_anf_resource w rid [] = None"
  shows "wait_for_no_anf_resource w rid tr = None"
proof (cases "wait_for_no_anf_resource w rid tr")
  case None
  then show ?thesis .
next
  case (Some tr')
  from wait_for_no_anf_resource_Some [OF Some] assms show ?thesis
    by auto
qed

subsection \<open>Each block as the events it adds\<close>

lemma lro_value_Inr_events:
  "lro_value reply = Inr x \<Longrightarrow> lro_events op reply = [LroBegin op, LroDone op]"
  by (auto simp: lro_value_def lro_events_def split: sum.splits)

lemma lro_value_Inr_reply: "lro_value reply = Inr x \<Longrightarrow> reply = Inr (Inr x)"
  by (auto simp: lro_value_def split: sum.splits)

lemma sdk_call_result:
  "(case sdk_call op reply tr of
      (Inl e, tr') \<Rightarrow> (Inl e, tr')
    | (Inr poller, tr') \<Rightarrow> result poller tr')
   = (lro_value reply, tr @ lro_events op reply)"
  by (simp add: sdk_call_def result_def lro_value_def lro_events_def split: sum.splits)

lemma except_CloudError_Inl: "except_CloudError msg (Inl e, tr) = (Inl e, tr @ error_log msg e)"
  by (simp add: except_CloudError_def error_log_def split: py_error.splits)

lemma except_CloudError_Inr: "except_CloudError msg (Inr x, tr) = (Inr x, tr)"
  by (simp add: except_CloudError_def)

lemma run_example_account_eq:
  "run_example_account w pw cert tr =
     (let op = AccountsCreateOrUpdate (account_body pw cert) RESOURCE_GROUP_NAME ANF_ACCOUNT_NAME;
          reply = accounts_create_or_update w (account_body pw cert) RESOURCE_GROUP_NAME
                    ANF_ACCOUNT_NAME
      in case lro_value reply of
           Inl e \<Rightarrow>
             (Inl e, tr @ lro_events op reply
                     @ error_log ''An error occurred while creating Account: '' e)
         | Inr a \<Rightarrow>
             (Inr a, tr @ lro_events op reply
                     @ [ConsoleOutput (tab @ ''Account successfully created. Resource id: ''
                                       @ account_id a)]))"
  by (simp add: run_example_account_def create_account_def sdk_call_result Let_def
      account_body_def except_CloudError_Inl except_CloudError_Inr split: sum.splits)

lemma run_example_pool_eq:
  "run_example_pool w a tr =
     (let op = PoolsCreateOrUpdate pool_body RESOURCE_GROUP_NAME (account_name a)
                 CAPACITY_POOL_NAME;
          reply = pools_create_or_update w pool_body RESOURCE_GROUP_NAME (account_name a)
                    CAPACITY_POOL_NAME
      in case lro_value reply of
           Inl e \<Rightarrow>
             (Inl e, tr @ lro_events op reply
                     @ error_log ''An error occurred while creating Capacity Pool: '' e)
         | Inr p \<Rightarrow>
             (Inr p, tr @ lro_events op reply
                     @ [ConsoleOutput (tab @ ''Capacity Pool successfully created. Resource id: ''
                                       @ pool_id p)]))"
  by (simp add: run_example_pool_def create_capacity_pool_def sdk_call_result Let_def
      pool_body_def except_CloudError_Inl except_CloudError_Inr split: sum.splits)

lemma run_example_volume_eq:
  "run_example_volume w a p subnet tr =
     (let op = VolumesCreateOrUpdate (volume_body subnet) RESOURCE_GROUP_NAME (account_name a)
                 (get_anf_capacity_pool w (pool_id p)) VOLUME_NAME;
          reply = volumes_create_or_update w (volume_body subnet) RESOURCE_GROUP_NAME
                    (account_name a) (get_anf_capacity_pool w (pool_id p)) VOLUME_NAME
      in case lro_value reply of
           Inl e \<Rightarrow>
             (Inl e, tr @ lro_events op reply
                     @ error_log ''An error occurred while creating Volume: '' e)
         | Inr v \<Rightarrow>
             (Inr v, tr @ lro_events op reply
                     @ [ConsoleOutput (tab @ ''Volume successfully created. Resource id: ''
                                       @ volume_id v)]))"
  by (simp add: run_example_volume_def create_volume_def sdk_call_result Let_def
      volume_body_def except_CloudError_Inl except_CloudError_Inr split: sum.splits)

lemma delete_volumes_eq:
  "delete_volumes w a [vid] tr =
     (let op = VolumesDelete RESOURCE_GROUP_NAME (account_name a)
                 (get_resource_value w vid ''capacityPools'') (get_anf_volume w vid);
          reply = volumes_delete w RESOURCE_GROUP_NAME (account_name a)
                    (get_resource_value w vid ''capacityPools'') (get_anf_volume w vid);
          tr2 = tr @ ConsoleOutput (tab @ ''Deleting '' @ get_anf_volume w vid) # lro_events op reply
      in case lro_value reply of
           Inl e \<Rightarrow> Some (Inl e, tr2)
         | Inr u \<Rightarrow>
             (case wait_for_no_anf_resource w vid [] of
                None \<Rightarrow> None
              | Some ps \<Rightarrow>
                  Some (Inr (),
                        tr2 @ ps
                        @ [ConsoleOutput (tab @ tab @ ''Successfully deleted Volume: '' @ vid)])))"
proof (cases "wait_for_no_anf_resource w vid []")
  case None
  note W = wait_for_no_anf_resource_None_any [OF None]
  show ?thesis
    by (simp add: sdk_call_def wait_def lro_value_def lro_events_def Let_def W split: sum.splits)
next
  case (Some ps)
  note W = wait_for_no_anf_resource_Some_any [OF Some]
  show ?thesis
    by (simp add: sdk_call_def wait_def lro_value_def lro_events_def Let_def W split: sum.splits)
qed

lemma delete_pools_eq:
  "delete_pools w a [pid] tr =
     (let op = PoolsDelete RESOURCE_GROUP_NAME (account_name a) (get_anf_capacity_pool w pid);
          reply = pools_delete w RESOURCE_GROUP_NAME (account_name a)
                    (get_anf_capacity_pool w pid);
          tr2 = tr @ ConsoleOutput (tab @ ''Deleting '' @ get_anf_capacity_pool w pid)
                     # lro_events op reply
      in case lro_value reply of
           Inl e \<Rightarrow> Some (Inl e, tr2)
         | Inr u \<Rightarrow>
             (case wait_for_no_anf_resource w pid [] of
                None \<Rightarrow> None
              | Some ps \<Rightarrow>
                  Some (Inr (),
                        tr2 @ ps
                        @ [ConsoleOutput (tab @ tab @ ''Successfully deleted Capacity Pool: ''
                                          @ pid)])))"
proof (cases "wait_for_no_anf_resource w pid []")
  case None
  note W = wait_for_no_anf_resource_None_any [OF None]
  show ?thesis
    by (simp add: sdk_call_def wait_def lro_value_def lro_events_def Let_def W split: sum.splits)
next
  case (Some ps)
  note W = wait_for_no_anf_resource_Some_any [OF Some]
  show ?thesis
    by (simp add: sdk_call_def wait_def lro_value_def lro_events_def Let_def W split: sum.splits)
qed

lemma delete_account_eq:
  "delete_account w a tr =
     (let op = AccountsDelete RESOURCE_GROUP_NAME (account_name a);
          reply = accounts_delete w RESOURCE_GROUP_NAME (account_name a);
          tr2 = tr @ ConsoleOutput (tab @ ''Deleting '' @ account_name a) # lro_events op reply
      in case lro_value reply of
           Inl e \<Rightarrow> (Inl e, tr2)
         | Inr u \<Rightarrow>
             (Inr (),
              tr2 @ [ConsoleOutput (tab @ tab @ ''Successfully deleted Account: ''
                                    @ account_id a)]))"
  by (simp add: delete_account_def sdk_call_def wait_def lro_value_def lro_events_def Let_def
      split: sum.splits)

text \<open>A cleanup that returns is \<open>cleanup_events\<close> for some numbers of polls.\<close>

lemmas cleanup_eqs = run_example_cleanup_def delete_volumes_eq delete_pools_eq delete_account_eq
  cleanup_events_def Let_def except_CloudError_Inl except_CloudError_Inr

lemma run_example_cleanup_events:
  assumes run: "run_example_cleanup w a p v tr = Some (r, tr')"
  shows "\<exists>k1 k2. r = fst (cleanup_events w a p v k1 k2)
                \<and> tr' = tr @ snd (cleanup_events w a p v k1 k2)"
proof -
  let ?vd = "lro_value (volumes_delete w RESOURCE_GROUP_NAME (account_name a)
               (get_resource_value w (volume_id v) ''capacityPools'')
               (get_anf_volume w (volume_id v)))"
  let ?pd = "lro_value (pools_delete w RESOURCE_GROUP_NAME (account_name a)
               (get_anf_capacity_pool w (pool_id p)))"
  let ?ad = "lro_value (accounts_delete w RESOURCE_GROUP_NAME (account_name a))"
  let ?W1 = "wait_for_no_anf_resource w (volume_id v) []"
  let ?W2 = "wait_for_no_anf_resource w (pool_id p) []"
  let ?R = "\<lambda>k1 k2. Some (fst (cleanup_events w a p v k1 k2),
                           tr @ snd (cleanup_events w a p v k1 k2))"
  have goal: ?thesis if "run_example_cleanup w a p v tr = ?R k1 k2" for k1 k2
    using that run by auto
  show ?thesis
  proof (cases ?vd)
    case (Inl e)
    have "run_example_cleanup w a p v tr = ?R 0 0"
      by (simp add: cleanup_eqs Inl del: delete_volumes.simps delete_pools.simps)
    then show ?thesis by (rule goal)
  next
    case vd: (Inr u1)
    show ?thesis
    proof (cases ?W1)
      case None
      have "run_example_cleanup w a p v tr = None"
        by (simp add: cleanup_eqs vd None del: delete_volumes.simps delete_pools.simps)
      with run show ?thesis by simp
    next
      case W1: (Some ps1)
      from wait_for_no_anf_resource_Some [OF W1] obtain k1
        where k1: "?W1 = Some (polls (volume_id v) k1)"
        by blast
      show ?thesis
      proof (cases ?pd)
        case (Inl e)
        have "run_example_cleanup w a p v tr = ?R k1 0"
          by (simp add: cleanup_eqs vd k1 Inl del: delete_volumes.simps delete_pools.simps)
        then show ?thesis by (rule goal)
      next
        case pd: (Inr u2)
        show ?thesis
        proof (cases ?W2)
          case None
          have "run_example_cleanup w a p v tr = None"
            by (simp add: cleanup_eqs vd k1 pd None del: delete_volumes.simps delete_pools.simps)
          with run show ?thesis by simp
        next
          case W2: (Some ps2)
          from wait_for_no_anf_resource_Some [OF W2] obtain k2
            where k2: "?W2 = Some (polls (pool_id p) k2)"
            by blast
          have "run_example_cleanup w a p v tr = ?R k1 k2"
            by (cases ?ad)
               (simp_all add: cleanup_eqs vd k1 pd k2 del: delete_volumes.simps delete_pools.simps)
          then show ?thesis by (rule goal)
        qed
      qed
    qed
  qed
qed

subsection \<open>Reading the events of a block\<close>

lemma lro_events_cases:
  "lro_events op reply =
     (case lro_value reply of
        Inr x \<Rightarrow> [LroBegin op, LroDone op]
      | Inl e \<Rightarrow> (case reply of Inl e' \<Rightarrow> [LroRefused op] | Inr r \<Rightarrow> [LroBegin op, LroDone op]))"
  by (simp add: lro_events_def lro_value_def split: sum.splits)

lemma requests_simps [simp]:
  "requests [] = []"
  "requests (e # es) = request_of e @ requests es"
  "requests (xs @ ys) = requests xs @ requests ys"
  by (simp_all add: requests_def)

lemma request_of_simps [simp]:
  "request_of (PrintHeader s) = []"
  "request_of (ConsoleOutput s) = []"
  "request_of (ConsoleOutputList s xs) = []"
  "request_of GetCredentials = []"
  "request_of (NewClient s) = []"
  "request_of (GetPass s) = []"
  "request_of (GetRootCaCert s) = []"
  "request_of (LroBegin op) = [op]"
  "request_of (LroRefused op) = [op]"
  "request_of (LroDone op) = []"
  "request_of (ResourceGet s b) = []"
  by (simp_all add: request_of_def)

lemma requests_lro_events [simp]: "requests (lro_events op reply) = [op]"
  by (simp add: lro_events_def split: sum.splits)

lemma requests_error_log [simp]: "requests (error_log msg e) = []"
  by (simp add: error_log_def split: py_error.splits)

lemma requests_polls [simp]: "requests (polls rid k) = []"
  unfolding polls_def by (induction k) simp_all

lemma lro_waited_Cons:
  "lro_waited (PrintHeader s # es) = lro_waited es"
  "lro_waited (ConsoleOutput s # es) = lro_waited es"
  "lro_waited (ConsoleOutputList s xs # es) = lro_waited es"
  "lro_waited (GetCredentials # es) = lro_waited es"
  "lro_waited (NewClient s # es) = lro_waited es"
  "lro_waited (GetPass s # es) = lro_waited es"
  "lro_waited (GetRootCaCert s # es) = lro_waited es"
  "lro_waited (LroRefused op # es) = lro_waited es"
  "lro_waited (ResourceGet s b # es) = lro_waited es"
  "lro_waited (LroDone op # es) = False"
  "lro_waited [LroBegin op] = False"
  "lro_waited (LroBegin op # LroDone op' # es) = (op = op' \<and> lro_waited es)"
  by simp_all

declare lro_waited.simps(2) [simp del]

declare lro_waited_Cons [simp]

lemma lro_waited_append: "lro_waited xs \<Longrightarrow> lro_waited (xs @ ys) = lro_waited ys"
proof (induction xs rule: lro_waited.induct)
  case 1
  show ?case by simp
next
  case (2 e es)
  show ?case
  proof (cases e)
    case (LroBegin op)
    with "2.prems" obtain es' where es: "es = LroDone op # es'" and w: "lro_waited es'"
      by (cases es) (auto simp: lro_waited.simps(2) split: event.splits)
    from "2.IH"(8) LroBegin es w have "lro_waited (es' @ ys) = lro_waited ys"
      by blast
    then show ?thesis
      using LroBegin es by simp
  next
    case (LroDone op)
    with "2.prems" show ?thesis by simp
  qed (use 2 in auto)
qed

lemma lro_waited_lro_events [simp]: "lro_waited (lro_events op reply @ es) = lro_waited es"
  by (simp add: lro_events_def split: sum.splits)

lemma lro_waited_error_log [simp]: "lro_waited (error_log msg e @ es) = lro_waited es"
  by (simp add: error_log_def split: py_error.splits)

lemma lro_waited_polls [simp]: "lro_waited (polls rid k @ es) = lro_waited es"
  unfolding polls_def by (induction k) simp_all

lemma lro_waited_lro_events_only [simp]: "lro_waited (lro_events op reply)"
  using lro_waited_lro_events [of op reply "[]"] by simp

lemma lro_waited_error_log_only [simp]: "lro_waited (error_log msg e)"
  using lro_waited_error_log [of msg e "[]"] by simp

lemmas provision_eqs = run_example_provision_def run_example_account_eq run_example_pool_eq
  run_example_volume_eq run_example_mounts_def Let_def

lemma provision_waited: "lro_waited (snd (run_example_provision w))"
  by (simp add: provision_eqs split: sum.splits list.splits)

lemma cleanup_events_waited: "lro_waited (snd (cleanup_events w a p v k1 k2))"
  by (simp add: cleanup_events_def Let_def split: sum.splits)

text \<open>How a run is put together from the two parts.\<close>

lemma run_example_parts:
  assumes "run_example w c = Some (r, tr)"
  shows "(\<exists>e. run_example_provision w = (Inl e, tr) \<and> r = Inl e)
       \<or> (\<exists>a p v tr0. run_example_provision w = (Inr (a, p, v), tr0) \<and> \<not> c \<and> r = Inr ()
            \<and> tr = tr0 @ [ConsoleOutput ''ANF Dual-Protocol sample has completed successfully''])
       \<or> (\<exists>a p v tr0 k1 k2 e. run_example_provision w = (Inr (a, p, v), tr0) \<and> c
            \<and> fst (cleanup_events w a p v k1 k2) = Inl e \<and> r = Inl e
            \<and> tr = tr0 @ snd (cleanup_events w a p v k1 k2))
       \<or> (\<exists>a p v tr0 k1 k2. run_example_provision w = (Inr (a, p, v), tr0) \<and> c
            \<and> fst (cleanup_events w a p v k1 k2) = Inr () \<and> r = Inr ()
            \<and> tr = tr0 @ snd (cleanup_events w a p v k1 k2)
                     @ [ConsoleOutput ''ANF Dual-Protocol sample has completed successfully''])"
proof (cases "run_example_provision w")
  case (Pair r0 tr0)
  show ?thesis
  proof (cases r0)
    case (Inl e)
    with Pair assms show ?thesis by (simp add: run_example_def)
  next
    case (Inr apv)
    obtain a p v where apv: "apv = (a, p, v)" by (cases apv) auto
    show ?thesis
    proof (cases c)
      case False
      with Pair Inr apv assms show ?thesis by (auto simp: run_example_def)
    next
      case True
      with Pair Inr apv assms obtain r1 tr1
        where cl: "run_example_cleanup w a p v tr0 = Some (r1, tr1)"
        by (cases "run_example_cleanup w a p v tr0") (auto simp: run_example_def)
      from run_example_cleanup_events [OF cl] obtain k1 k2
        where k: "fst (cleanup_events w a p v k1 k2) = r1"
          "tr1 = tr0 @ snd (cleanup_events w a p v k1 k2)"
        by metis
      show ?thesis
      proof (cases r1)
        case e: (Inl e)
        with Pair Inr apv assms True cl have "r = Inl e" "tr = tr1"
          by (simp_all add: run_example_def)
        with Pair Inr apv True e k show ?thesis by auto
      next
        case u: (Inr u)
        with Pair Inr apv assms True cl
        have "r = Inr ()"
          "tr = tr1 @ [ConsoleOutput ''ANF Dual-Protocol sample has completed successfully'']"
          by (simp_all add: run_example_def)
        with Pair Inr apv True u k show ?thesis by auto
      qed
    qed
  qed
qed

subsection \<open>The sample runs\<close>

text \<open>The encoder on the test vectors of RFC 4648, section 10.\<close>

lemma b64encode_test_vectors:
  "b64encode [] = []"
  "b64encode ''f'' = ''Zg==''"
  "b64encode ''fo'' = ''Zm8=''"
  "b64encode ''foo'' = ''Zm9v''"
  "b64encode ''foob'' = ''Zm9vYg==''"
  "b64encode ''fooba'' = ''Zm9vYmE=''"
  "b64encode ''foobar'' = ''Zm9vYmFy''"
  by (simp_all add: b64_char_def b64_alphabet_def)

lemma sample_env_fields:
  "get_credentials sample_env = Inr ''sub1''"
  "api_version sample_env = ''2020-02-01''"
  "getpass sample_env prompt = Inr ''secret''"
  "get_root_ca_cert sample_env path = Inr ''abc''"
  "get_anf_capacity_pool sample_env rid = ''pool1''"
  "get_resource_value sample_env rid key = ''pool1''"
  "get_anf_volume sample_env rid = ''vol1''"
  "accounts_create_or_update sample_env ab rg n =
     Inr (Inr \<lparr>account_id = ''/acc1'', account_name = ''acc1''\<rparr>)"
  "pools_create_or_update sample_env pb rg a n = Inr (Inr \<lparr>pool_id = ''/acc1/pool1''\<rparr>)"
  "volumes_create_or_update sample_env vb rg a p n =
     Inr (Inr \<lparr>volume_id = ''/acc1/pool1/vol1'',
               volume_protocol_types = [''CIFS'', ''NFSv3''],
               mount_targets = [\<lparr>smb_server_fqdn = ''smb.test'', ip_address = ''10.0.0.4''\<rparr>]\<rparr>)"
  "volumes_delete sample_env rg a p v = Inr (Inr ())"
  "pools_delete sample_env rg a p = Inr (Inr ())"
  "accounts_delete sample_env rg a = Inr (Inr ())"
  "resource_get sample_env rid k = (k < 1)"
  by (simp_all add: sample_env_def)

lemma sample_polls:
  "wait_for_no_anf_resource sample_env rid [] = Some [ResourceGet rid True, ResourceGet rid False]"
  by (simp add: wait_for_no_anf_resource_def poll_until_gone.simps sample_env_fields)

lemmas sample_defs = sample_account_op_def sample_pool_op_def sample_volume_op_def
  sample_prelude_def sample_creation_def sample_provision_def sample_teardown_def
  sample_completed_def account_body_def pool_body_def volume_body_def lro_value_def
  lro_events_def error_log_def CAPACITY_POOL_SERVICE_LEVEL_def RESOURCE_GROUP_NAME_def
  VNET_NAME_def SUBNET_NAME_def b64_char_def b64_alphabet_def

lemma sample_provision_run:
  "run_example_provision sample_env =
     (Inr (\<lparr>account_id = ''/acc1'', account_name = ''acc1''\<rparr>,
           \<lparr>pool_id = ''/acc1/pool1''\<rparr>,
           \<lparr>volume_id = ''/acc1/pool1/vol1'', volume_protocol_types = [''CIFS'', ''NFSv3''],
            mount_targets = [\<lparr>smb_server_fqdn = ''smb.test'', ip_address = ''10.0.0.4''\<rparr>]\<rparr>),
      sample_provision)"
  by (simp add: provision_eqs sample_env_fields sample_defs)

lemma sample_cleanup_run:
  "run_example_cleanup sample_env \<lparr>account_id = ''/acc1'', account_name = ''acc1''\<rparr>
     \<lparr>pool_id = ''/acc1/pool1''\<rparr>
     \<lparr>volume_id = ''/acc1/pool1/vol1'', volume_protocol_types = [''CIFS'', ''NFSv3''],
      mount_targets = [\<lparr>smb_server_fqdn = ''smb.test'', ip_address = ''10.0.0.4''\<rparr>]\<rparr> tr
   = Some (Inr (), tr @ sample_teardown)"
  by (simp add: run_example_cleanup_def delete_volumes_eq delete_pools_eq delete_account_eq
      Let_def except_CloudError_Inr sample_polls sample_defs sample_env_fields
      del: delete_volumes.simps delete_pools.simps)

lemma sample_run_cleanup:
  "run_example sample_env True = Some (Inr (), sample_provision @ sample_teardown @ sample_completed)"
  by (simp add: run_example_def sample_provision_run sample_cleanup_run sample_completed_def)

lemma sample_run_plain:
  "run_example sample_env False = Some (Inr (), sample_provision @ sample_completed)"
  by (simp add: run_example_def sample_provision_run sample_completed_def)

lemma no_mounts_run:
  "run_example no_mounts_env True = Some (Inl IndexError, sample_creation)"
  by (simp add: run_example_def provision_eqs no_mounts_env_def sample_env_fields sample_defs)

lemma pool_fails_run:
  "run_example pool_fails_env True = Some (Inl (CloudError ''quota exceeded''), pool_fails_trace)"
  by (simp add: run_example_def provision_eqs pool_fails_env_def pool_fails_trace_def
      sample_env_fields sample_defs)

subsection \<open>The other readings of a trace, block by block\<close>

lemma teardown_events_simps [simp]:
  "teardown_events [] = []"
  "teardown_events (e # es) = (if teardown_event e then e # teardown_events es else teardown_events es)"
  "teardown_events (xs @ ys) = teardown_events xs @ teardown_events ys"
  by (simp_all add: teardown_events_def)

lemma teardown_event_simps [simp]:
  "teardown_event (PrintHeader s) = False"
  "teardown_event (ConsoleOutput s) = False"
  "teardown_event (ConsoleOutputList s xs) = False"
  "teardown_event GetCredentials = False"
  "teardown_event (NewClient s) = False"
  "teardown_event (GetPass s) = False"
  "teardown_event (GetRootCaCert s) = False"
  "teardown_event (LroBegin op) = is_delete op"
  "teardown_event (LroRefused op) = is_delete op"
  "teardown_event (LroDone op) = is_delete op"
  "teardown_event (ResourceGet s b) = True"
  by (simp_all add: teardown_event_def)

lemma is_delete_simps [simp]:
  "is_delete (AccountsCreateOrUpdate ab rg n) = False"
  "is_delete (PoolsCreateOrUpdate pb rg a n) = False"
  "is_delete (VolumesCreateOrUpdate vb rg a p n) = False"
  "is_delete (VolumesDelete rg a p n) = True"
  "is_delete (PoolsDelete rg a n) = True"
  "is_delete (AccountsDelete rg n) = True"
  by (simp_all add: is_delete_def)

lemma teardown_events_lro_events [simp]:
  "teardown_events (lro_events op reply) = (if is_delete op then lro_events op reply else [])"
  by (simp add: lro_events_def split: sum.splits)

lemma teardown_events_error_log [simp]: "teardown_events (error_log msg e) = []"
  by (simp add: error_log_def split: py_error.splits)

lemma teardown_events_polls [simp]: "teardown_events (polls rid k) = polls rid k"
  unfolding polls_def by (induction k) simp_all

lemma lro_phases_simps [simp]:
  "lro_phases [] = []"
  "lro_phases (e # es) = phase_of e @ lro_phases es"
  "lro_phases (xs @ ys) = lro_phases xs @ lro_phases ys"
  by (simp_all add: lro_phases_def)

lemma phase_of_simps [simp]:
  "phase_of (PrintHeader s) = []"
  "phase_of (ConsoleOutput s) = []"
  "phase_of (ConsoleOutputList s xs) = []"
  "phase_of GetCredentials = []"
  "phase_of (NewClient s) = []"
  "phase_of (GetPass s) = []"
  "phase_of (GetRootCaCert s) = []"
  "phase_of (LroBegin op) = [Called (op_step op)]"
  "phase_of (LroRefused op) = [Called (op_step op)]"
  "phase_of (LroDone op) = [Completed (op_step op)]"
  "phase_of (ResourceGet s b) = []"
  by (simp_all add: phase_of_def)

lemma lro_phases_error_log [simp]: "lro_phases (error_log msg e) = []"
  by (simp add: error_log_def split: py_error.splits)

lemma lro_phases_polls [simp]: "lro_phases (polls rid k) = []"
  unfolding polls_def by (induction k) simp_all

lemma lro_phases_lro_events_Inr:
  "lro_value reply = Inr x \<Longrightarrow>
   lro_phases (lro_events op reply) = [Called (op_step op), Completed (op_step op)]"
  by (simp add: lro_value_Inr_events)

lemma lro_phases_lro_events_prefix:
  "prefix (lro_phases (lro_events op reply)) (Called (op_step op) # Completed (op_step op) # rest)"
  by (simp add: lro_events_def split: sum.splits)

lemma created_simps [simp]:
  "created_accounts w [] = []"
  "created_accounts w (xs @ ys) = created_accounts w xs @ created_accounts w ys"
  "created_pools w [] = []"
  "created_pools w (xs @ ys) = created_pools w xs @ created_pools w ys"
  "created_volumes w [] = []"
  "created_volumes w (xs @ ys) = created_volumes w xs @ created_volumes w ys"
  by (simp_all add: created_accounts_def created_pools_def created_volumes_def)

lemma created_Cons [simp]:
  "created_accounts w (PrintHeader s # es) = created_accounts w es"
  "created_accounts w (ConsoleOutput s # es) = created_accounts w es"
  "created_accounts w (ConsoleOutputList s xs # es) = created_accounts w es"
  "created_accounts w (GetCredentials # es) = created_accounts w es"
  "created_accounts w (NewClient s # es) = created_accounts w es"
  "created_accounts w (GetPass s # es) = created_accounts w es"
  "created_accounts w (GetRootCaCert s # es) = created_accounts w es"
  "created_accounts w (LroBegin op # es) = created_accounts w es"
  "created_accounts w (LroRefused op # es) = created_accounts w es"
  "created_accounts w (ResourceGet s b # es) = created_accounts w es"
  "created_pools w (PrintHeader s # es) = created_pools w es"
  "created_pools w (ConsoleOutput s # es) = created_pools w es"
  "created_pools w (ConsoleOutputList s xs # es) = created_pools w es"
  "created_pools w (GetCredentials # es) = created_pools w es"
  "created_pools w (NewClient s # es) = created_pools w es"
  "created_pools w (GetPass s # es) = created_pools w es"
  "created_pools w (GetRootCaCert s # es) = created_pools w es"
  "created_pools w (LroBegin op # es) = created_pools w es"
  "created_pools w (LroRefused op # es) = created_pools w es"
  "created_pools w (ResourceGet s b # es) = created_pools w es"
  "created_volumes w (PrintHeader s # es) = created_volumes w es"
  "created_volumes w (ConsoleOutput s # es) = created_volumes w es"
  "created_volumes w (ConsoleOutputList s xs # es) = created_volumes w es"
  "created_volumes w (GetCredentials # es) = created_volumes w es"
  "created_volumes w (NewClient s # es) = created_volumes w es"
  "created_volumes w (GetPass s # es) = created_volumes w es"
  "created_volumes w (GetRootCaCert s # es) = created_volumes w es"
  "created_volumes w (LroBegin op # es) = created_volumes w es"
  "created_volumes w (LroRefused op # es) = created_volumes w es"
  "created_volumes w (ResourceGet s b # es) = created_volumes w es"
  by (simp_all add: created_accounts_def created_pools_def created_volumes_def)

lemma created_error_log [simp]:
  "created_accounts w (error_log msg e) = []"
  "created_pools w (error_log msg e) = []"
  "created_volumes w (error_log msg e) = []"
  by (simp_all add: error_log_def split: py_error.splits)

lemma created_polls [simp]:
  "created_accounts w (polls rid k) = []"
  "created_pools w (polls rid k) = []"
  "created_volumes w (polls rid k) = []"
  unfolding polls_def created_accounts_def created_pools_def created_volumes_def
  by (induction k) simp_all

lemma created_accounts_lro_events [simp]:
  "created_accounts w (lro_events (AccountsCreateOrUpdate b rg n) (accounts_create_or_update w b rg n))
     = (case lro_value (accounts_create_or_update w b rg n) of Inl e \<Rightarrow> [] | Inr a \<Rightarrow> [a])"
  "created_accounts w (lro_events (PoolsCreateOrUpdate pb rg a n) reply1) = []"
  "created_accounts w (lro_events (VolumesCreateOrUpdate vb rg a p n) reply2) = []"
  "created_accounts w (lro_events (VolumesDelete rg a p n) reply3) = []"
  "created_accounts w (lro_events (PoolsDelete rg a n) reply4) = []"
  "created_accounts w (lro_events (AccountsDelete rg n) reply5) = []"
  by (simp_all add: created_accounts_def lro_events_def lro_value_def split: sum.splits)

lemma created_pools_lro_events [simp]:
  "created_pools w (lro_events (PoolsCreateOrUpdate pb rg a n) (pools_create_or_update w pb rg a n))
     = (case lro_value (pools_create_or_update w pb rg a n) of Inl e \<Rightarrow> [] | Inr p \<Rightarrow> [p])"
  "created_pools w (lro_events (AccountsCreateOrUpdate b rg n) reply1) = []"
  "created_pools w (lro_events (VolumesCreateOrUpdate vb rg a p n) reply2) = []"
  "created_pools w (lro_events (VolumesDelete rg a p n) reply3) = []"
  "created_pools w (lro_events (PoolsDelete rg a n) reply4) = []"
  "created_pools w (lro_events (AccountsDelete rg n) reply5) = []"
  by (simp_all add: created_pools_def lro_events_def lro_value_def split: sum.splits)

lemma created_volumes_lro_events [simp]:
  "created_volumes w (lro_events (VolumesCreateOrUpdate vb rg a p n)
                        (volumes_create_or_update w vb rg a p n))
     = (case lro_value (volumes_create_or_update w vb rg a p n) of Inl e \<Rightarrow> [] | Inr v \<Rightarrow> [v])"
  "created_volumes w (lro_events (AccountsCreateOrUpdate b rg n) reply1) = []"
  "created_volumes w (lro_events (PoolsCreateOrUpdate pb rg a n) reply2) = []"
  "created_volumes w (lro_events (VolumesDelete rg a p n) reply3) = []"
  "created_volumes w (lro_events (PoolsDelete rg a n) reply4) = []"
  "created_volumes w (lro_events (AccountsDelete rg n) reply5) = []"
  by (simp_all add: created_volumes_def lro_events_def lro_value_def split: sum.splits)

lemma parents_simps [simp]:
  "pool_parents (xs @ ys) = pool_parents xs @ pool_parents ys"
  "volume_parents (xs @ ys) = volume_parents xs @ volume_parents ys"
  "pool_parents [] = []"
  "volume_parents [] = []"
  by (simp_all add: pool_parents_def volume_parents_def)

lemma parents_Cons [simp]:
  "pool_parents (PrintHeader s # es) = pool_parents es"
  "pool_parents (ConsoleOutput s # es) = pool_parents es"
  "pool_parents (ConsoleOutputList s xs # es) = pool_parents es"
  "pool_parents (GetCredentials # es) = pool_parents es"
  "pool_parents (NewClient s # es) = pool_parents es"
  "pool_parents (GetPass s # es) = pool_parents es"
  "pool_parents (GetRootCaCert s # es) = pool_parents es"
  "pool_parents (ResourceGet s b # es) = pool_parents es"
  "pool_parents (LroDone op # es) = pool_parents es"
  "volume_parents (PrintHeader s # es) = volume_parents es"
  "volume_parents (ConsoleOutput s # es) = volume_parents es"
  "volume_parents (ConsoleOutputList s xs # es) = volume_parents es"
  "volume_parents (GetCredentials # es) = volume_parents es"
  "volume_parents (NewClient s # es) = volume_parents es"
  "volume_parents (GetPass s # es) = volume_parents es"
  "volume_parents (GetRootCaCert s # es) = volume_parents es"
  "volume_parents (ResourceGet s b # es) = volume_parents es"
  "volume_parents (LroDone op # es) = volume_parents es"
  by (simp_all add: pool_parents_def volume_parents_def)

lemma parents_lro_events [simp]:
  "pool_parents (lro_events op reply) =
     (case op of PoolsCreateOrUpdate b rg a n \<Rightarrow> [a] | _ \<Rightarrow> [])"
  "volume_parents (lro_events op reply) =
     (case op of VolumesCreateOrUpdate b rg a p n \<Rightarrow> [(a, p)] | _ \<Rightarrow> [])"
  by (simp_all add: pool_parents_def volume_parents_def)

lemma parents_error_log [simp]:
  "pool_parents (error_log msg e) = []"
  "volume_parents (error_log msg e) = []"
  by (simp_all add: pool_parents_def volume_parents_def)

lemma parents_polls [simp]:
  "pool_parents (polls rid k) = []"
  "volume_parents (polls rid k) = []"
  by (simp_all add: pool_parents_def volume_parents_def)

lemma body_requests_simps [simp]:
  "account_requests [] = []"
  "pool_requests [] = []"
  "volume_requests [] = []"
  "account_requests (error_log msg e) = []"
  "account_requests (polls rid k) = []"
  by (simp_all add: account_requests_def pool_requests_def volume_requests_def)

lemma account_requests_Cons [simp]:
  "account_requests (PrintHeader s # es) = account_requests es"
  "account_requests (ConsoleOutput s # es) = account_requests es"
  "account_requests (ConsoleOutputList s xs # es) = account_requests es"
  "account_requests (GetCredentials # es) = account_requests es"
  "account_requests (NewClient s # es) = account_requests es"
  "account_requests (GetPass s # es) = account_requests es"
  "account_requests (GetRootCaCert s # es) = account_requests es"
  "account_requests (ResourceGet s b # es) = account_requests es"
  "account_requests (LroDone op # es) = account_requests es"
  by (simp_all add: account_requests_def)

section \<open>The claims\<close>

subsection \<open>What the three helpers send\<close>

lemma body_requests_append [simp]:
  "account_requests (xs @ ys) = account_requests xs @ account_requests ys"
  "pool_requests (xs @ ys) = pool_requests xs @ pool_requests ys"
  "volume_requests (xs @ ys) = volume_requests xs @ volume_requests ys"
  by (simp_all add: account_requests_def pool_requests_def volume_requests_def)

lemma create_account_trace:
  "snd (create_account w rg n loc pw cert tg tr) =
     tr @ lro_events
            (AccountsCreateOrUpdate
               \<lparr>acct_location = loc, acct_tags = tg,
                active_directories =
                  [\<lparr>username = DOMAIN_JOIN_USERNAME, password = pw, domain = AD_FQDN,
                    dns = DNS_LIST, smb_server_name = SMB_SERVERNAME_PREFIX,
                    server_root_ca_certificate = cert\<rparr>]\<rparr> rg n)
            (accounts_create_or_update w
               \<lparr>acct_location = loc, acct_tags = tg,
                active_directories =
                  [\<lparr>username = DOMAIN_JOIN_USERNAME, password = pw, domain = AD_FQDN,
                    dns = DNS_LIST, smb_server_name = SMB_SERVERNAME_PREFIX,
                    server_root_ca_certificate = cert\<rparr>]\<rparr> rg n)"
  by (simp add: create_account_def sdk_call_result Let_def)

lemma create_capacity_pool_trace:
  "snd (create_capacity_pool w rg an pn sz loc tg tr) =
     tr @ lro_events
            (PoolsCreateOrUpdate
               \<lparr>pool_location = loc, pool_service_level = CAPACITY_POOL_SERVICE_LEVEL,
                pool_size = sz\<rparr> rg an pn)
            (pools_create_or_update w
               \<lparr>pool_location = loc, pool_service_level = CAPACITY_POOL_SERVICE_LEVEL,
                pool_size = sz\<rparr> rg an pn)"
  by (simp add: create_capacity_pool_def sdk_call_result Let_def)

lemma create_volume_trace:
  "snd (create_volume w rg an pn vn vs sn loc dp tg tr) =
     tr @ lro_events
            (VolumesCreateOrUpdate
               \<lparr>usage_threshold = vs, creation_token = vn, vol_location = loc,
                vol_service_level = CAPACITY_POOL_SERVICE_LEVEL, subnet_id = sn,
                protocol_types = [''CIFS'', ''NFSv3''], data_protection = dp,
                security_style = ''ntfs''\<rparr> rg an pn vn)
            (volumes_create_or_update w
               \<lparr>usage_threshold = vs, creation_token = vn, vol_location = loc,
                vol_service_level = CAPACITY_POOL_SERVICE_LEVEL, subnet_id = sn,
                protocol_types = [''CIFS'', ''NFSv3''], data_protection = dp,
                security_style = ''ntfs''\<rparr> rg an pn vn)"
  by (simp add: create_volume_def sdk_call_result Let_def)

lemma body_requests_lro_events [simp]:
  "account_requests (lro_events op reply) =
     (case op of AccountsCreateOrUpdate b rg n \<Rightarrow> [b] | _ \<Rightarrow> [])"
  "pool_requests (lro_events op reply) =
     (case op of PoolsCreateOrUpdate b rg a n \<Rightarrow> [b] | _ \<Rightarrow> [])"
  "volume_requests (lro_events op reply) =
     (case op of VolumesCreateOrUpdate b rg a p n \<Rightarrow> [b] | _ \<Rightarrow> [])"
  by (simp_all add: account_requests_def pool_requests_def volume_requests_def)

text \<open>
  C3. Whatever its arguments and whatever the service answers, \<open>create_volume\<close> sends
  exactly one volume request, and the \<open>protocol_types\<close> of its body are the SMB protocol
  \<open>CIFS\<close> and the NFS protocol \<open>NFSv3\<close>, both at once.
\<close>

theorem create_volume_dual_protocol:
  "map protocol_types (volume_requests (snd (create_volume w rg an pn vn vs sn loc dp tg tr)))
     = map protocol_types (volume_requests tr) @ [[''CIFS'', ''NFSv3'']]"
  by (simp add: create_volume_trace)

text \<open>
  C8. The pool request of \<open>create_capacity_pool\<close> and the volume request of
  \<open>create_volume\<close> both carry the module constant \<open>CAPACITY_POOL_SERVICE_LEVEL\<close>, which
  is \<open>Standard\<close>, for every choice of the arguments: no argument reaches the field, and
  the two service levels are equal.
\<close>

theorem service_level_fixed:
  "map pool_service_level
       (pool_requests (snd (create_capacity_pool w rg an pn sz loc tg tr)))
     = map pool_service_level (pool_requests tr) @ [''Standard'']
   \<and> map vol_service_level
       (volume_requests (snd (create_volume w' rg' an' pn' vn vs sn loc' dp tg' tr')))
     = map vol_service_level (volume_requests tr') @ [''Standard'']
   \<and> CAPACITY_POOL_SERVICE_LEVEL = ''Standard''"
  by (simp add: create_capacity_pool_trace create_volume_trace CAPACITY_POOL_SERVICE_LEVEL_def)

text \<open>
  C10. The volume request of \<open>create_volume\<close> has the security style \<open>ntfs\<close> and, as
  its creation token, the volume name that was passed in (the same name the request is
  addressed to).
\<close>

theorem create_volume_ntfs_and_token:
  "map (\<lambda>b. (security_style b, creation_token b))
       (volume_requests (snd (create_volume w rg an pn vn vs sn loc dp tg tr)))
     = map (\<lambda>b. (security_style b, creation_token b)) (volume_requests tr) @ [(''ntfs'', vn)]
   \<and> requests (snd (create_volume w rg an pn vn vs sn loc dp tg tr))
     = requests tr
       @ [VolumesCreateOrUpdate
            \<lparr>usage_threshold = vs, creation_token = vn, vol_location = loc,
             vol_service_level = CAPACITY_POOL_SERVICE_LEVEL, subnet_id = sn,
             protocol_types = [''CIFS'', ''NFSv3''], data_protection = dp,
             security_style = ''ntfs''\<rparr> rg an pn vn]"
  by (simp add: create_volume_trace)

subsection \<open>Waiting on the operations\<close>

text \<open>
  C5. In every run that returns, each long-running operation that starts is waited on
  at once: its \<open>LroBegin\<close> is followed immediately by its \<open>LroDone\<close>, before any line is
  printed and before any other call; the same holds for what each of the three helpers
  adds to the trace before it returns.
\<close>

theorem operations_waited_synchronously:
  assumes "run_example w c = Some (r, tr)"
  shows "lro_waited tr
       \<and> lro_waited (snd (create_account w rg n loc pw cert tg []))
       \<and> lro_waited (snd (create_capacity_pool w rg an pn sz loc tg []))
       \<and> lro_waited (snd (create_volume w rg an pn vn vs sn loc dp tg []))"
proof -
  have "lro_waited tr"
    using provision_waited [of w] cleanup_events_waited assms
    by (auto dest!: run_example_parts simp: lro_waited_append)
  then show ?thesis
    by (simp add: create_account_trace create_capacity_pool_trace create_volume_trace)
qed

theorem operations_waited_synchronously_witness:
  "run_example sample_env True
     = Some (Inr (), sample_provision @ sample_teardown @ sample_completed)
   \<and> lro_waited (sample_provision @ sample_teardown @ sample_completed)"
  using operations_waited_synchronously [OF sample_run_cleanup] sample_run_cleanup
  by simp

subsection \<open>The cleanup flag\<close>

lemma provision_no_teardown: "teardown_events (snd (run_example_provision w)) = []"
  by (simp add: provision_eqs split: sum.splits list.splits)

text \<open>
  C7. A run with the flag off always returns, and its trace has no event of a delete
  operation and no poll: nothing is issued after the creations. In any run, events of
  the teardown occur only if the flag is on. The shipped script has the flag off.
\<close>

theorem cleanup_gated:
  assumes "run_example w c = Some (r, tr)"
  shows "(c \<or> teardown_events tr = [])
       \<and> (\<exists>r' tr'. run_example w False = Some (r', tr') \<and> teardown_events tr' = [])
       \<and> main w = run_example w False"
proof -
  have "c \<or> teardown_events tr = []"
    using provision_no_teardown [of w] assms
    by (auto dest!: run_example_parts)
  moreover have "\<exists>r' tr'. run_example w False = Some (r', tr') \<and> teardown_events tr' = []"
    using provision_no_teardown [of w]
    by (cases "run_example_provision w")
       (auto simp: run_example_def split: sum.splits)
  moreover have "main w = run_example w False"
    by (simp add: main_def CLEANUP_RESOURCES_def)
  ultimately show ?thesis by blast
qed

theorem cleanup_gated_witness:
  "run_example sample_env False = Some (Inr (), sample_provision @ sample_completed)
   \<and> (False \<or> teardown_events (sample_provision @ sample_completed) = [])
   \<and> main sample_env = run_example sample_env False"
  using cleanup_gated [OF sample_run_plain] sample_run_plain
  by simp

subsection \<open>The account request\<close>

lemma provision_account_requests:
  assumes "get_credentials w = Inr sub" and "getpass w getpass_prompt = Inr pw"
    and "get_root_ca_cert w ROOT_CA_CERT_FULL_FILEPATH = Inr cert"
  shows "account_requests (snd (run_example_provision w)) = [account_body pw (b64encode cert)]"
  using assms
  by (simp add: provision_eqs split: sum.splits list.splits)

lemma cleanup_events_account_requests:
  "account_requests (snd (cleanup_events w a p v k1 k2)) = []"
  by (simp add: cleanup_events_def Let_def split: sum.splits)

text \<open>
  C6. When the credentials, the prompt and the certificate file are obtained, a run
  sends exactly one account request. Its body holds exactly one Active Directory entry,
  whose password is what the prompt returned and whose server root CA certificate is
  the base64 encoding of what was read from the certificate file (the value that
  \<open>get_root_ca_cert\<close> returned for \<open>ROOT_CA_CERT_FULL_FILEPATH\<close>).
\<close>

theorem account_request_embeds_directory_join:
  assumes "run_example w c = Some (r, tr)"
    and "get_credentials w = Inr sub"
    and "getpass w getpass_prompt = Inr pw"
    and "get_root_ca_cert w ROOT_CA_CERT_FULL_FILEPATH = Inr cert"
  shows "account_requests tr =
           [\<lparr>acct_location = LOCATION, acct_tags = None,
             active_directories =
               [\<lparr>username = DOMAIN_JOIN_USERNAME, password = pw, domain = AD_FQDN,
                 dns = DNS_LIST, smb_server_name = SMB_SERVERNAME_PREFIX,
                 server_root_ca_certificate = b64encode cert\<rparr>]\<rparr>]"
  using provision_account_requests [OF assms(2-4)] cleanup_events_account_requests assms(1)
  by (auto dest!: run_example_parts simp: account_body_def)

theorem account_request_embeds_directory_join_witness:
  "run_example sample_env True
     = Some (Inr (), sample_provision @ sample_teardown @ sample_completed)
   \<and> get_credentials sample_env = Inr ''sub1''
   \<and> getpass sample_env getpass_prompt = Inr ''secret''
   \<and> get_root_ca_cert sample_env ROOT_CA_CERT_FULL_FILEPATH = Inr ''abc''
   \<and> account_requests (sample_provision @ sample_teardown @ sample_completed) =
        [\<lparr>acct_location = LOCATION, acct_tags = None,
          active_directories =
            [\<lparr>username = DOMAIN_JOIN_USERNAME, password = ''secret'', domain = AD_FQDN,
              dns = DNS_LIST, smb_server_name = SMB_SERVERNAME_PREFIX,
              server_root_ca_certificate = ''YWJj''\<rparr>]\<rparr>]"
  using account_request_embeds_directory_join
          [OF sample_run_cleanup sample_env_fields(1) sample_env_fields(3) sample_env_fields(4)]
        sample_run_cleanup
  by (simp add: sample_env_fields b64_char_def b64_alphabet_def)

subsection \<open>The mount targets\<close>

lemma suffix_rev_take: "suffix xs ys \<longleftrightarrow> take (length xs) (rev ys) = rev xs"
proof -
  have "prefix as bs \<longleftrightarrow> take (length as) bs = as" for as bs :: "'a list"
    by (metis append_eq_conv_conj prefix_def take_is_prefix)
  then show ?thesis
    by (simp add: suffix_to_prefix)
qed

lemma provision_created:
  assumes "run_example_provision w = (Inr (a, p, v), tr0)"
  shows "created_accounts w tr0 = [a] \<and> created_pools w tr0 = [p] \<and> created_volumes w tr0 = [v]"
  using assms
  by (simp add: provision_eqs split: sum.splits list.splits) auto

lemma cleanup_events_created:
  "created_accounts w (snd (cleanup_events w a p v k1 k2)) = []"
  "created_pools w (snd (cleanup_events w a p v k1 k2)) = []"
  "created_volumes w (snd (cleanup_events w a p v k1 k2)) = []"
  by (simp_all add: cleanup_events_def Let_def split: sum.splits)

lemma provision_mounts:
  assumes "created_volumes w (snd (run_example_provision w)) = [v]"
  shows "case mount_targets v of
           [] \<Rightarrow>
             fst (run_example_provision w) = Inl IndexError
             \<and> suffix [ConsoleOutput (tab @ ''Volume successfully created. Resource id: ''
                                       @ volume_id v),
                       ConsoleOutputList ''Current Volume protocol types: {}''
                         (volume_protocol_types v)]
                  (snd (run_example_provision w))
         | m # ms \<Rightarrow>
             (\<exists>a p. fst (run_example_provision w) = Inr (a, p, v))
             \<and> suffix [ConsoleOutput (tab @ ''Volume successfully created. Resource id: ''
                                       @ volume_id v),
                       ConsoleOutputList ''Current Volume protocol types: {}''
                         (volume_protocol_types v),
                       ConsoleOutput (''SMB Server FQDN: '' @ smb_server_fqdn m),
                       ConsoleOutput (''NFS IP Address: '' @ ip_address m)]
                  (snd (run_example_provision w))"
  using assms
  by (simp add: provision_eqs suffix_rev_take split: sum.splits list.splits)

text \<open>
  C9. Let \<open>v\<close> be the volume that the completed volume creation of a run delivered.
  After the line with the protocol types, \<open>run_example\<close> reads the first element of
  \<open>mount_targets v\<close> without a test. If the list is empty the run ends there in
  \<open>IndexError\<close>: the protocol-types line is the last event, no FQDN or address is
  printed and no cleanup happens. Otherwise the next two lines print the SMB server
  FQDN and the IP address of that first element.
\<close>

theorem mount_targets_first_element:
  assumes "run_example w c = Some (r, tr)"
    and "created_volumes w tr = [v]"
  shows "case mount_targets v of
           [] \<Rightarrow>
             r = Inl IndexError
             \<and> suffix [ConsoleOutput (tab @ ''Volume successfully created. Resource id: ''
                                       @ volume_id v),
                       ConsoleOutputList ''Current Volume protocol types: {}''
                         (volume_protocol_types v)] tr
             \<and> teardown_events tr = []
         | m # ms \<Rightarrow>
             sublist [ConsoleOutput (tab @ ''Volume successfully created. Resource id: ''
                                      @ volume_id v),
                      ConsoleOutputList ''Current Volume protocol types: {}''
                        (volume_protocol_types v),
                      ConsoleOutput (''SMB Server FQDN: '' @ smb_server_fqdn m),
                      ConsoleOutput (''NFS IP Address: '' @ ip_address m)] tr"
proof -
  obtain r0 tr0 where prov: "run_example_provision w = (r0, tr0)"
    by (cases "run_example_provision w")
  have tr: "\<exists>rest. tr = tr0 @ rest" and fail: "\<forall>e. r0 = Inl e \<longrightarrow> tr = tr0 \<and> r = Inl e"
    using run_example_parts [OF assms(1)] prov by auto
  have "created_volumes w tr = created_volumes w tr0"
    using run_example_parts [OF assms(1)] prov
    by (auto simp: cleanup_events_created)
  with assms(2) prov have cv: "created_volumes w (snd (run_example_provision w)) = [v]"
    by simp
  note pm = provision_mounts [OF cv]
  show ?thesis
  proof (cases "mount_targets v")
    case Nil
    with pm prov fail provision_no_teardown [of w] show ?thesis
      by simp
  next
    case (Cons m ms)
    with pm prov have "suffix [ConsoleOutput (tab @ ''Volume successfully created. Resource id: ''
                                      @ volume_id v),
                      ConsoleOutputList ''Current Volume protocol types: {}''
                        (volume_protocol_types v),
                      ConsoleOutput (''SMB Server FQDN: '' @ smb_server_fqdn m),
                      ConsoleOutput (''NFS IP Address: '' @ ip_address m)] tr0"
      by simp
    then obtain pre where "tr0 = pre @ [ConsoleOutput (tab @ ''Volume successfully created. Resource id: ''
                                      @ volume_id v),
                      ConsoleOutputList ''Current Volume protocol types: {}''
                        (volume_protocol_types v),
                      ConsoleOutput (''SMB Server FQDN: '' @ smb_server_fqdn m),
                      ConsoleOutput (''NFS IP Address: '' @ ip_address m)]"
      unfolding suffix_def by blast
    with tr have "\<exists>pre rest. tr = pre @ [ConsoleOutput (tab @ ''Volume successfully created. Resource id: ''
                                      @ volume_id v),
                      ConsoleOutputList ''Current Volume protocol types: {}''
                        (volume_protocol_types v),
                      ConsoleOutput (''SMB Server FQDN: '' @ smb_server_fqdn m),
                      ConsoleOutput (''NFS IP Address: '' @ ip_address m)] @ rest"
      by auto
    with Cons show ?thesis
      by (simp add: sublist_def)
  qed
qed

lemma no_mounts_env_fields:
  "accounts_create_or_update no_mounts_env ab rg n =
     Inr (Inr \<lparr>account_id = ''/acc1'', account_name = ''acc1''\<rparr>)"
  "pools_create_or_update no_mounts_env pb rg a n = Inr (Inr \<lparr>pool_id = ''/acc1/pool1''\<rparr>)"
  "volumes_create_or_update no_mounts_env vb rg a p n =
     Inr (Inr \<lparr>volume_id = ''/acc1/pool1/vol1'',
               volume_protocol_types = [''CIFS'', ''NFSv3''], mount_targets = []\<rparr>)"
  by (simp_all add: no_mounts_env_def sample_env_def)

lemma no_mounts_created:
  "created_volumes no_mounts_env sample_creation =
     [\<lparr>volume_id = ''/acc1/pool1/vol1'',
       volume_protocol_types = [''CIFS'', ''NFSv3''], mount_targets = []\<rparr>]"
  by (simp add: created_volumes_def sample_creation_def sample_prelude_def sample_account_op_def
      sample_pool_op_def sample_volume_op_def no_mounts_env_fields)

theorem mount_targets_first_element_witness:
  "run_example no_mounts_env True = Some (Inl IndexError, sample_creation)
   \<and> created_volumes no_mounts_env sample_creation =
       [\<lparr>volume_id = ''/acc1/pool1/vol1'',
         volume_protocol_types = [''CIFS'', ''NFSv3''], mount_targets = []\<rparr>]
   \<and> suffix [ConsoleOutput (tab @ ''Volume successfully created. Resource id: /acc1/pool1/vol1''),
             ConsoleOutputList ''Current Volume protocol types: {}'' [''CIFS'', ''NFSv3'']]
        sample_creation
   \<and> teardown_events sample_creation = []"
  using mount_targets_first_element [OF no_mounts_run no_mounts_created]
        no_mounts_run no_mounts_created
  by simp

subsection \<open>The order of the steps\<close>

lemma lro_phases_lro_events:
  "lro_phases (lro_events op reply) =
     (case lro_value reply of
        Inr x \<Rightarrow> [Called (op_step op), Completed (op_step op)]
      | Inl e \<Rightarrow>
          (case reply of
             Inl e' \<Rightarrow> [Called (op_step op)]
           | Inr r \<Rightarrow> [Called (op_step op), Completed (op_step op)]))"
  by (simp add: lro_events_def lro_value_def split: sum.splits)

lemma provision_phases:
  "prefix (lro_phases (snd (run_example_provision w))) creation_schedule
   \<and> (\<forall>x. fst (run_example_provision w) = Inr x \<longrightarrow>
          lro_phases (snd (run_example_provision w)) = creation_schedule)"
  by (simp add: provision_eqs creation_schedule_def lro_phases_lro_events
      split: sum.splits list.splits)

lemma cleanup_events_phases:
  "prefix (lro_phases (snd (cleanup_events w a p v k1 k2))) teardown_schedule
   \<and> (fst (cleanup_events w a p v k1 k2) = Inr () \<longrightarrow>
          lro_phases (snd (cleanup_events w a p v k1 k2)) = teardown_schedule)"
  by (simp add: cleanup_events_def Let_def teardown_schedule_def lro_phases_lro_events
      split: sum.splits)

lemma provision_parents:
  "pool_parents (snd (run_example_provision w))
     = map account_name (created_accounts w (snd (run_example_provision w)))
   \<and> volume_parents (snd (run_example_provision w))
     = map (\<lambda>(a, p). (account_name a, get_anf_capacity_pool w (pool_id p)))
         (List.product (created_accounts w (snd (run_example_provision w)))
                       (created_pools w (snd (run_example_provision w))))"
  by (simp add: provision_eqs split: sum.splits list.splits)

lemma cleanup_events_parents:
  "pool_parents (snd (cleanup_events w a p v k1 k2)) = []"
  "volume_parents (snd (cleanup_events w a p v k1 k2)) = []"
  by (simp_all add: cleanup_events_def Let_def split: sum.splits)

text \<open>
  C2. Read as the sequence of steps called and steps completed, the trace of a run that
  returns is an initial part of the schedule: account, pool and volume created in this
  order, and, with the cleanup on, volume, pool and account deleted in this order, each
  step completed before the next is called. A run that reaches the end went through the
  whole schedule. Every pool request names the account that the account creation
  delivered, and every volume request names that account and the pool that the pool
  creation delivered (its name as \<open>get_anf_capacity_pool\<close> reads it from the pool's id).
\<close>

theorem steps_strictly_ordered:
  assumes "run_example w c = Some (r, tr)"
  shows "prefix (lro_phases tr) (schedule c)
       \<and> (r = Inr () \<longrightarrow> lro_phases tr = schedule c)
       \<and> pool_parents tr = map account_name (created_accounts w tr)
       \<and> volume_parents tr
           = map (\<lambda>(a, p). (account_name a, get_anf_capacity_pool w (pool_id p)))
               (List.product (created_accounts w tr) (created_pools w tr))"
proof -
  note parts = run_example_parts [OF assms]
  have order: "prefix (lro_phases tr) (schedule c) \<and> (r = Inr () \<longrightarrow> lro_phases tr = schedule c)"
    using parts provision_phases [of w] cleanup_events_phases
    by (auto simp: schedule_def)
  have scope: "pool_parents tr = map account_name (created_accounts w tr)
       \<and> volume_parents tr
           = map (\<lambda>(a, p). (account_name a, get_anf_capacity_pool w (pool_id p)))
               (List.product (created_accounts w tr) (created_pools w tr))"
    using parts provision_parents [of w]
    by (auto simp: cleanup_events_parents cleanup_events_created)
  from order scope show ?thesis by blast
qed

lemma sample_created:
  "created_accounts sample_env (sample_provision @ sample_teardown @ sample_completed)
     = [\<lparr>account_id = ''/acc1'', account_name = ''acc1''\<rparr>]"
  "created_pools sample_env (sample_provision @ sample_teardown @ sample_completed)
     = [\<lparr>pool_id = ''/acc1/pool1''\<rparr>]"
  "created_volumes sample_env (sample_provision @ sample_teardown @ sample_completed)
     = [\<lparr>volume_id = ''/acc1/pool1/vol1'', volume_protocol_types = [''CIFS'', ''NFSv3''],
         mount_targets = [\<lparr>smb_server_fqdn = ''smb.test'', ip_address = ''10.0.0.4''\<rparr>]\<rparr>]"
  by (simp_all add: created_accounts_def created_pools_def created_volumes_def
      sample_provision_def sample_creation_def sample_prelude_def sample_teardown_def
      sample_completed_def sample_account_op_def sample_pool_op_def sample_volume_op_def
      sample_env_fields)

theorem steps_strictly_ordered_witness:
  "run_example sample_env True
     = Some (Inr (), sample_provision @ sample_teardown @ sample_completed)
   \<and> lro_phases (sample_provision @ sample_teardown @ sample_completed) =
       [Called CreateAccount, Completed CreateAccount,
        Called CreatePool, Completed CreatePool,
        Called CreateVolume, Completed CreateVolume,
        Called DeleteVolume, Completed DeleteVolume,
        Called DeletePool, Completed DeletePool,
        Called DeleteAccount, Completed DeleteAccount]
   \<and> pool_parents (sample_provision @ sample_teardown @ sample_completed) = [''acc1'']
   \<and> volume_parents (sample_provision @ sample_teardown @ sample_completed)
       = [(''acc1'', ''pool1'')]"
  using steps_strictly_ordered [OF sample_run_cleanup, unfolded sample_created]
        sample_run_cleanup
  by (simp add: sample_env_fields schedule_def creation_schedule_def teardown_schedule_def)

subsection \<open>Error logging\<close>

lemma lro_error_simps [simp]:
  "lro_error w (AccountsCreateOrUpdate ab rg n) = raised (lro_value (accounts_create_or_update w ab rg n))"
  "lro_error w (PoolsCreateOrUpdate pb rg a n) = raised (lro_value (pools_create_or_update w pb rg a n))"
  "lro_error w (VolumesCreateOrUpdate vb rg a p n) =
     raised (lro_value (volumes_create_or_update w vb rg a p n))"
  "lro_error w (VolumesDelete rg a p n) = raised (lro_value (volumes_delete w rg a p n))"
  "lro_error w (PoolsDelete rg a n) = raised (lro_value (pools_delete w rg a n))"
  "lro_error w (AccountsDelete rg n) = raised (lro_value (accounts_delete w rg n))"
  by (simp_all add: lro_error_def)

lemma raised_simps [simp]:
  "raised (Inl e) = Some e"
  "raised (Inr x) = None"
  by (simp_all add: raised_def)

lemma logged_failure_block:
  assumes "lro_value reply = Inl (CloudError m)" and "msg = step_message (op_step op)"
  shows "logged_failure op m (tr @ lro_events op reply @ error_log msg (CloudError m))"
proof (cases reply)
  case (Inl e)
  then have "tr @ lro_events op reply @ error_log msg (CloudError m)
             = tr @ [LroRefused op, ConsoleOutput (step_message (op_step op) @ m)]"
    using assms by (simp add: lro_events_def error_log_def)
  then show ?thesis
    unfolding logged_failure_def by (metis suffixI)
next
  case (Inr x)
  then have "tr @ lro_events op reply @ error_log msg (CloudError m)
             = tr @ [LroBegin op, LroDone op, ConsoleOutput (step_message (op_step op) @ m)]"
    using assms by (simp add: lro_events_def error_log_def)
  then show ?thesis
    unfolding logged_failure_def by (metis suffixI)
qed

lemma logged_failure_Cons: "logged_failure op m tr \<Longrightarrow> logged_failure op m (e # tr)"
  unfolding logged_failure_def by (auto intro: suffix_ConsI)

lemma logged_failure_append: "logged_failure op m tr \<Longrightarrow> logged_failure op m (tr0 @ tr)"
  unfolding logged_failure_def by (auto intro: suffix_appendI)

lemma step_message_simps [simp]:
  "step_message CreateAccount = ''An error occurred while creating Account: ''"
  "step_message CreatePool = ''An error occurred while creating Capacity Pool: ''"
  "step_message CreateVolume = ''An error occurred while creating Volume: ''"
  "step_message DeleteVolume = ''An error occurred while deleting volumes: ''"
  "step_message DeletePool = ''An error occurred while deleting capacity pools: ''"
  "step_message DeleteAccount = ''An error occurred while deleting accounts: ''"
  by (simp_all add: step_message_def)

lemma provision_cloud_error:
  assumes "op \<in> set (requests (snd (run_example_provision w)))"
    and "lro_error w op = Some (CloudError m)"
  shows "fst (run_example_provision w) = Inl (CloudError m)
       \<and> logged_failure op m (snd (run_example_provision w))"
  using assms
  by (auto simp: provision_eqs logged_failure_Cons logged_failure_append
        logged_failure_block [where tr = "[]", simplified]
      split: sum.splits list.splits)

lemma cleanup_events_cloud_error:
  assumes "op \<in> set (requests (snd (cleanup_events w a p v k1 k2)))"
    and "lro_error w op = Some (CloudError m)"
  shows "fst (cleanup_events w a p v k1 k2) = Inl (CloudError m)
       \<and> logged_failure op m (snd (cleanup_events w a p v k1 k2))"
  using assms
  by (auto simp: cleanup_events_def Let_def logged_failure_Cons logged_failure_append
        logged_failure_block [where tr = "[]", simplified]
      split: sum.splits)

text \<open>
  C4. Each of the six management calls stands in a \<open>try\<close> statement that catches
  \<open>CloudError\<close>. If an operation that a run requested raises a cloud error with message
  \<open>m\<close>, at the call or while it is waited on, then the run ends in that same exception,
  and the last event of its trace is the line that names the failed step followed by
  \<open>m\<close>, printed right after the failed call: no later step is executed.
\<close>

theorem cloud_error_logged_and_reraised:
  assumes "run_example w c = Some (r, tr)"
    and "op \<in> set (requests tr)"
    and "lro_error w op = Some (CloudError m)"
  shows "r = Inl (CloudError m) \<and> logged_failure op m tr"
proof -
  note parts = run_example_parts [OF assms(1)]
  note prov = provision_cloud_error [OF _ assms(3)]
  note clean = cleanup_events_cloud_error [OF _ assms(3)]
  from parts show ?thesis
  proof (elim disjE exE conjE)
    fix e
    assume p: "run_example_provision w = (Inl e, tr)" and r: "r = Inl e"
    with assms(2) prov show ?thesis by simp
  next
    fix a p v tr0
    assume p: "run_example_provision w = (Inr (a, p, v), tr0)"
      and tr: "tr = tr0 @ [ConsoleOutput ''ANF Dual-Protocol sample has completed successfully'']"
    with assms(2) prov show ?thesis by simp
  next
    fix a p v tr0 k1 k2 e
    assume p: "run_example_provision w = (Inr (a, p, v), tr0)"
      and f: "fst (cleanup_events w a p v k1 k2) = Inl e" and r: "r = Inl e"
      and tr: "tr = tr0 @ snd (cleanup_events w a p v k1 k2)"
    from assms(2) tr p prov
    have "op \<in> set (requests (snd (cleanup_events w a p v k1 k2)))"
      by auto
    from clean [OF this] f r tr show ?thesis
      by (simp add: logged_failure_append)
  next
    fix a p v tr0 k1 k2
    assume p: "run_example_provision w = (Inr (a, p, v), tr0)"
      and f: "fst (cleanup_events w a p v k1 k2) = Inr ()"
      and tr: "tr = tr0 @ snd (cleanup_events w a p v k1 k2)
                 @ [ConsoleOutput ''ANF Dual-Protocol sample has completed successfully'']"
    from assms(2) tr p prov
    have "op \<in> set (requests (snd (cleanup_events w a p v k1 k2)))"
      by auto
    from clean [OF this] f show ?thesis
      by simp
  qed
qed

lemma pool_fails_error:
  "lro_error pool_fails_env sample_pool_op = Some (CloudError ''quota exceeded'')"
  by (simp add: sample_pool_op_def pool_fails_env_def lro_value_def)

lemma pool_fails_requests:
  "requests pool_fails_trace = [sample_account_op, sample_pool_op]"
  by (simp add: pool_fails_trace_def sample_prelude_def)

theorem cloud_error_logged_and_reraised_witness:
  "run_example pool_fails_env True
     = Some (Inl (CloudError ''quota exceeded''), pool_fails_trace)
   \<and> sample_pool_op \<in> set (requests pool_fails_trace)
   \<and> lro_error pool_fails_env sample_pool_op = Some (CloudError ''quota exceeded'')
   \<and> logged_failure sample_pool_op ''quota exceeded'' pool_fails_trace"
proof -
  have mem: "sample_pool_op \<in> set (requests pool_fails_trace)"
    by (simp add: pool_fails_requests)
  from cloud_error_logged_and_reraised [OF pool_fails_run mem pool_fails_error]
    pool_fails_run mem pool_fails_error
  show ?thesis by simp
qed

subsection \<open>The teardown\<close>

lemma lro_trace_simps [simp]:
  "lro_trace w (VolumesDelete rg a p n) =
     lro_events (VolumesDelete rg a p n) (volumes_delete w rg a p n)"
  "lro_trace w (PoolsDelete rg a n) = lro_events (PoolsDelete rg a n) (pools_delete w rg a n)"
  "lro_trace w (AccountsDelete rg n) = lro_events (AccountsDelete rg n) (accounts_delete w rg n)"
  by (simp_all add: lro_trace_def)

lemmas teardown_defs = volume_deletion_def pool_deletion_def account_deletion_def
  teardown_plan_def teardown_result_def

lemma cleanup_events_result:
  "fst (cleanup_events w a p v k1 k2) = teardown_result w a p v"
  by (simp add: cleanup_events_def Let_def teardown_defs split: sum.splits)

lemma cleanup_events_plan:
  "teardown_events (snd (cleanup_events w a p v k1 k2)) = teardown_plan w a p v k1 k2"
  by (simp add: cleanup_events_def Let_def teardown_defs split: sum.splits)

lemma cleanup_events_success_end:
  assumes "fst (cleanup_events w a p v k1 k2) = Inr ()"
  shows "suffix [LroBegin (account_deletion a), LroDone (account_deletion a),
                 ConsoleOutput (tab @ tab @ ''Successfully deleted Account: '' @ account_id a)]
           (snd (cleanup_events w a p v k1 k2))"
proof -
  from assms have "\<exists>pre. snd (cleanup_events w a p v k1 k2) =
      pre @ [LroBegin (account_deletion a), LroDone (account_deletion a),
             ConsoleOutput (tab @ tab @ ''Successfully deleted Account: '' @ account_id a)]"
    by (simp add: cleanup_events_def Let_def account_deletion_def lro_value_Inr_events
        split: sum.splits)
  then show ?thesis
    by (auto simp: suffix_def)
qed

text \<open>A poll loop that never returns polls a resource that never disappears.\<close>

lemma wait_for_no_anf_resource_None:
  assumes "wait_for_no_anf_resource w rid [] = None"
  shows "\<forall>n. resource_get w rid n"
proof (rule ccontr)
  assume "\<not> (\<forall>n. resource_get w rid n)"
  then obtain n where n: "\<not> resource_get w rid n"
    by blast
  define k where "k = (LEAST i. \<not> resource_get w rid i)"
  have gone: "\<not> resource_get w rid k"
    unfolding k_def using n by (rule LeastI [of "\<lambda>i. \<not> resource_get w rid i"])
  have before: "resource_get w rid j" if "j < k" for j
  proof (rule ccontr)
    assume "\<not> resource_get w rid j"
    then have "k \<le> j"
      unfolding k_def by (rule Least_le)
    with that show False
      by simp
  qed
  have "poll_until_gone w rid 0 [] = Some ([] @ polls rid k)"
  proof (rule poll_until_gone_returns)
    show "\<not> resource_get w rid (0 + k)"
      using gone by simp
    show "\<forall>j<k. resource_get w rid (0 + j)"
      using before by simp
  qed
  with assms show False
    by (simp add: wait_for_no_anf_resource_def)
qed

lemma run_example_cleanup_None:
  assumes none: "run_example_cleanup w a p v tr = None"
  shows "lro_error w (volume_deletion w a v) = None
       \<and> ((\<forall>n. resource_get w (volume_id v) n)
          \<or> lro_error w (pool_deletion w a p) = None \<and> (\<forall>n. resource_get w (pool_id p) n))"
proof -
  let ?vd = "lro_value (volumes_delete w RESOURCE_GROUP_NAME (account_name a)
               (get_resource_value w (volume_id v) ''capacityPools'')
               (get_anf_volume w (volume_id v)))"
  let ?pd = "lro_value (pools_delete w RESOURCE_GROUP_NAME (account_name a)
               (get_anf_capacity_pool w (pool_id p)))"
  let ?ad = "lro_value (accounts_delete w RESOURCE_GROUP_NAME (account_name a))"
  let ?W1 = "wait_for_no_anf_resource w (volume_id v) []"
  let ?W2 = "wait_for_no_anf_resource w (pool_id p) []"
  show ?thesis
  proof (cases ?vd)
    case (Inl e)
    have "run_example_cleanup w a p v tr \<noteq> None"
      by (simp add: cleanup_eqs Inl del: delete_volumes.simps delete_pools.simps)
    with none show ?thesis by simp
  next
    case vd: (Inr u1)
    then have vd_ok: "lro_error w (volume_deletion w a v) = None"
      by (simp add: volume_deletion_def)
    show ?thesis
    proof (cases ?W1)
      case None
      from wait_for_no_anf_resource_None [OF None] vd_ok show ?thesis
        by blast
    next
      case W1: (Some ps1)
      show ?thesis
      proof (cases ?pd)
        case (Inl e)
        have "run_example_cleanup w a p v tr \<noteq> None"
          by (simp add: cleanup_eqs vd W1 Inl del: delete_volumes.simps delete_pools.simps)
        with none show ?thesis by simp
      next
        case pd: (Inr u2)
        then have pd_ok: "lro_error w (pool_deletion w a p) = None"
          by (simp add: pool_deletion_def)
        show ?thesis
        proof (cases ?W2)
          case None
          from wait_for_no_anf_resource_None [OF None] vd_ok pd_ok show ?thesis
            by blast
        next
          case W2: (Some ps2)
          have "run_example_cleanup w a p v tr \<noteq> None"
            by (cases ?ad)
               (simp_all add: cleanup_eqs vd W1 pd W2 del: delete_volumes.simps delete_pools.simps)
          with none show ?thesis by simp
        qed
      qed
    qed
  qed
qed

text \<open>
  The branch of the run that never returns is inhabited: where the volume is found by
  every poll, the run with the cleanup on deletes the volume and then polls for ever.
\<close>

lemma never_gone_polls: "wait_for_no_anf_resource never_gone_env rid [] = None"
proof (cases "wait_for_no_anf_resource never_gone_env rid []")
  case None
  then show ?thesis .
next
  case (Some ps)
  from poll_until_gone_trace [OF Some [unfolded wait_for_no_anf_resource_def]]
  obtain k where "\<not> resource_get never_gone_env rid (0 + k)"
    by blast
  then show ?thesis
    by (simp add: never_gone_env_def)
qed

lemma never_gone_env_fields:
  "volumes_delete never_gone_env rg a p v = Inr (Inr ())"
  "get_resource_value never_gone_env rid key = ''pool1''"
  "get_anf_volume never_gone_env rid = ''vol1''"
  by (simp_all add: never_gone_env_def sample_env_def)

lemma never_gone_run: "run_example never_gone_env True = None"
proof -
  have prov: "run_example_provision never_gone_env =
     (Inr (\<lparr>account_id = ''/acc1'', account_name = ''acc1''\<rparr>,
           \<lparr>pool_id = ''/acc1/pool1''\<rparr>,
           \<lparr>volume_id = ''/acc1/pool1/vol1'', volume_protocol_types = [''CIFS'', ''NFSv3''],
            mount_targets = [\<lparr>smb_server_fqdn = ''smb.test'', ip_address = ''10.0.0.4''\<rparr>]\<rparr>),
      sample_provision)"
    by (simp add: provision_eqs never_gone_env_def sample_env_fields sample_defs)
  have "run_example_cleanup never_gone_env \<lparr>account_id = ''/acc1'', account_name = ''acc1''\<rparr>
     \<lparr>pool_id = ''/acc1/pool1''\<rparr>
     \<lparr>volume_id = ''/acc1/pool1/vol1'', volume_protocol_types = [''CIFS'', ''NFSv3''],
      mount_targets = [\<lparr>smb_server_fqdn = ''smb.test'', ip_address = ''10.0.0.4''\<rparr>]\<rparr>
     sample_provision = None"
    by (simp add: run_example_cleanup_def delete_volumes_eq Let_def never_gone_polls
        never_gone_env_fields lro_value_def del: delete_volumes.simps delete_pools.simps)
  with prov show ?thesis
    by (simp add: run_example_def)
qed

text \<open>
  C1, as the code has it. With the cleanup on, a run whose provisioning ends in an
  exception has no teardown. Otherwise let \<open>a\<close>, \<open>p\<close> and \<open>v\<close> be the account, the pool
  and the volume that provisioning hands on. If the run returns, the events of its
  teardown are exactly the plan: the volume deletion, called and waited on; then, unless
  it raised, polls of the volume's id up to the first that no longer finds it, and the
  pool deletion; then, unless that raised, polls of the pool's id up to the first that
  no longer finds it, and the account deletion; and no poll after the account deletion.
  The run ends in the first exception a deletion raised, and if none did, the account
  deletion is followed at once by its success line and the closing line of the script,
  the last events of the run. If the run never returns, then no deletion before the
  endless poll loop raised, and the volume, or else the pool, is found by every poll:
  the script does not proceed while the resource still exists.
\<close>

theorem teardown_sequence:
  "case run_example_provision w of
     (Inl e, tr0) \<Rightarrow> run_example w True = Some (Inl e, tr0) \<and> teardown_events tr0 = []
   | (Inr (a, p, v), tr0) \<Rightarrow>
       (case run_example w True of
          None \<Rightarrow>
            lro_error w (volume_deletion w a v) = None
            \<and> ((\<forall>n. resource_get w (volume_id v) n)
               \<or> lro_error w (pool_deletion w a p) = None
                 \<and> (\<forall>n. resource_get w (pool_id p) n))
        | Some (r, tr) \<Rightarrow>
            r = teardown_result w a p v
            \<and> (\<exists>k1 k2. teardown_events tr = teardown_plan w a p v k1 k2)
            \<and> (r = Inr () \<longrightarrow>
                 suffix [LroBegin (account_deletion a), LroDone (account_deletion a),
                         ConsoleOutput (tab @ tab @ ''Successfully deleted Account: ''
                                        @ account_id a),
                         ConsoleOutput ''ANF Dual-Protocol sample has completed successfully'']
                   tr))"
proof (cases "run_example_provision w")
  case (Pair r0 tr0)
  show ?thesis
  proof (cases r0)
    case (Inl e)
    with Pair provision_no_teardown [of w] show ?thesis
      by (simp add: run_example_def)
  next
    case (Inr apv)
    obtain a p v where apv: "apv = (a, p, v)"
      by (cases apv) auto
    note prov = Pair [unfolded Inr apv]
    have no_td: "teardown_events tr0 = []"
      using provision_no_teardown [of w] prov by simp
    show ?thesis
    proof (cases "run_example_cleanup w a p v tr0")
      case None
      then have "run_example w True = None"
        by (simp add: run_example_def prov)
      with run_example_cleanup_None [OF None] prov show ?thesis
        by simp
    next
      case (Some out)
      obtain r1 tr1 where out: "out = (r1, tr1)"
        by (cases out)
      from run_example_cleanup_events [OF Some [unfolded out]] obtain k1 k2
        where r1: "r1 = fst (cleanup_events w a p v k1 k2)"
          and tr1: "tr1 = tr0 @ snd (cleanup_events w a p v k1 k2)"
        by blast
      have res: "teardown_result w a p v = r1"
        using r1 by (simp add: cleanup_events_result)
      have plan: "teardown_events tr1 = teardown_plan w a p v k1 k2"
        using tr1 no_td by (simp add: cleanup_events_plan)
      show ?thesis
      proof (cases r1)
        case e: (Inl e)
        then have run: "run_example w True = Some (r1, tr1)"
          by (simp add: run_example_def prov Some out)
        from plan have "\<exists>k1 k2. teardown_events tr1 = teardown_plan w a p v k1 k2"
          by blast
        with run res e prov show ?thesis
          by simp
      next
        case u: (Inr u)
        let ?done = "[ConsoleOutput ''ANF Dual-Protocol sample has completed successfully'']"
        have run: "run_example w True = Some (r1, tr1 @ ?done)"
          using u by (simp add: run_example_def prov Some out)
        from plan have "\<exists>k1 k2. teardown_events (tr1 @ ?done) = teardown_plan w a p v k1 k2"
          by auto
        moreover have "suffix [LroBegin (account_deletion a), LroDone (account_deletion a),
                         ConsoleOutput (tab @ tab @ ''Successfully deleted Account: ''
                                        @ account_id a),
                         ConsoleOutput ''ANF Dual-Protocol sample has completed successfully'']
                   (tr1 @ ?done)"
        proof -
          from u r1 have "fst (cleanup_events w a p v k1 k2) = Inr ()"
            by simp
          from cleanup_events_success_end [OF this] obtain pre
            where "snd (cleanup_events w a p v k1 k2) =
                     pre @ [LroBegin (account_deletion a), LroDone (account_deletion a),
                            ConsoleOutput (tab @ tab @ ''Successfully deleted Account: ''
                                           @ account_id a)]"
            by (auto simp: suffix_def)
          then have "tr1 @ ?done =
                     (tr0 @ pre) @ [LroBegin (account_deletion a), LroDone (account_deletion a),
                            ConsoleOutput (tab @ tab @ ''Successfully deleted Account: ''
                                           @ account_id a),
                            ConsoleOutput ''ANF Dual-Protocol sample has completed successfully'']"
            by (simp add: tr1)
          then show ?thesis
            by (metis suffixI)
        qed
        ultimately show ?thesis
          using run res prov by simp
      qed
    qed
  qed
qed

lemma sample_teardown_plan:
  "teardown_plan sample_env \<lparr>account_id = ''/acc1'', account_name = ''acc1''\<rparr>
     \<lparr>pool_id = ''/acc1/pool1''\<rparr>
     \<lparr>volume_id = ''/acc1/pool1/vol1'', volume_protocol_types = [''CIFS'', ''NFSv3''],
      mount_targets = [\<lparr>smb_server_fqdn = ''smb.test'', ip_address = ''10.0.0.4''\<rparr>]\<rparr> k1 k2
   = LroBegin (VolumesDelete RESOURCE_GROUP_NAME ''acc1'' ''pool1'' ''vol1'')
     # LroDone (VolumesDelete RESOURCE_GROUP_NAME ''acc1'' ''pool1'' ''vol1'')
     # polls ''/acc1/pool1/vol1'' k1
     @ LroBegin (PoolsDelete RESOURCE_GROUP_NAME ''acc1'' ''pool1'')
     # LroDone (PoolsDelete RESOURCE_GROUP_NAME ''acc1'' ''pool1'')
     # polls ''/acc1/pool1'' k2
     @ [LroBegin (AccountsDelete RESOURCE_GROUP_NAME ''acc1''),
        LroDone (AccountsDelete RESOURCE_GROUP_NAME ''acc1'')]"
  by (simp add: teardown_defs sample_env_fields lro_value_def lro_events_def)

lemma sample_teardown_result:
  "teardown_result sample_env \<lparr>account_id = ''/acc1'', account_name = ''acc1''\<rparr>
     \<lparr>pool_id = ''/acc1/pool1''\<rparr>
     \<lparr>volume_id = ''/acc1/pool1/vol1'', volume_protocol_types = [''CIFS'', ''NFSv3''],
      mount_targets = [\<lparr>smb_server_fqdn = ''smb.test'', ip_address = ''10.0.0.4''\<rparr>]\<rparr>
   = Inr ()"
  by (simp add: teardown_defs sample_env_fields lro_value_def)

theorem teardown_sequence_witness:
  "run_example_provision sample_env =
     (Inr (\<lparr>account_id = ''/acc1'', account_name = ''acc1''\<rparr>,
           \<lparr>pool_id = ''/acc1/pool1''\<rparr>,
           \<lparr>volume_id = ''/acc1/pool1/vol1'', volume_protocol_types = [''CIFS'', ''NFSv3''],
            mount_targets = [\<lparr>smb_server_fqdn = ''smb.test'', ip_address = ''10.0.0.4''\<rparr>]\<rparr>),
      sample_provision)
   \<and> run_example sample_env True
       = Some (Inr (), sample_provision @ sample_teardown @ sample_completed)
   \<and> (\<exists>k1 k2.
         teardown_events (sample_provision @ sample_teardown @ sample_completed) =
           LroBegin (VolumesDelete RESOURCE_GROUP_NAME ''acc1'' ''pool1'' ''vol1'')
           # LroDone (VolumesDelete RESOURCE_GROUP_NAME ''acc1'' ''pool1'' ''vol1'')
           # polls ''/acc1/pool1/vol1'' k1
           @ LroBegin (PoolsDelete RESOURCE_GROUP_NAME ''acc1'' ''pool1'')
           # LroDone (PoolsDelete RESOURCE_GROUP_NAME ''acc1'' ''pool1'')
           # polls ''/acc1/pool1'' k2
           @ [LroBegin (AccountsDelete RESOURCE_GROUP_NAME ''acc1''),
              LroDone (AccountsDelete RESOURCE_GROUP_NAME ''acc1'')])
   \<and> suffix [LroBegin (AccountsDelete RESOURCE_GROUP_NAME ''acc1''),
             LroDone (AccountsDelete RESOURCE_GROUP_NAME ''acc1''),
             ConsoleOutput (tab @ tab @ ''Successfully deleted Account: /acc1''),
             ConsoleOutput ''ANF Dual-Protocol sample has completed successfully'']
        (sample_provision @ sample_teardown @ sample_completed)"
  using teardown_sequence [of sample_env] sample_provision_run sample_run_cleanup
  by (simp add: sample_teardown_plan sample_teardown_result account_deletion_def)

text \<open>
  C1, as the claim states it, fails for the account. In the sample world every deleted
  resource is still found by the first poll. The run with the cleanup on polls the
  volume and the pool until they are gone, but after the account deletion it polls
  nothing: the completion of the account deletion is the last event of the teardown,
  no poll of the account's id \<open>/acc1\<close> is in the trace, and the run reaches the end.
\<close>

theorem account_deletion_not_polled:
  "run_example sample_env True
     = Some (Inr (), sample_provision @ sample_teardown @ sample_completed)
   \<and> teardown_events (sample_provision @ sample_teardown @ sample_completed) =
       [LroBegin (VolumesDelete RESOURCE_GROUP_NAME ''acc1'' ''pool1'' ''vol1''),
        LroDone (VolumesDelete RESOURCE_GROUP_NAME ''acc1'' ''pool1'' ''vol1''),
        ResourceGet ''/acc1/pool1/vol1'' True,
        ResourceGet ''/acc1/pool1/vol1'' False,
        LroBegin (PoolsDelete RESOURCE_GROUP_NAME ''acc1'' ''pool1''),
        LroDone (PoolsDelete RESOURCE_GROUP_NAME ''acc1'' ''pool1''),
        ResourceGet ''/acc1/pool1'' True,
        ResourceGet ''/acc1/pool1'' False,
        LroBegin (AccountsDelete RESOURCE_GROUP_NAME ''acc1''),
        LroDone (AccountsDelete RESOURCE_GROUP_NAME ''acc1'')]
   \<and> ResourceGet ''/acc1'' True \<notin> set (sample_provision @ sample_teardown @ sample_completed)
   \<and> ResourceGet ''/acc1'' False \<notin> set (sample_provision @ sample_teardown @ sample_completed)
   \<and> resource_get sample_env ''/acc1'' 0"
  by (simp add: sample_run_cleanup sample_env_fields sample_provision_def sample_creation_def
      sample_prelude_def sample_teardown_def sample_completed_def sample_account_op_def
      sample_pool_op_def sample_volume_op_def)

end
